theory Spec2Isabelle
  imports Main
begin

section \<open>Python values\<close>

text \<open>
  A Python \<open>str\<close> is the list of its code points, so \<open>length\<close> and slicing count what
  Python counts. A literal of the source that is pure ASCII is written \<open>str ''...''\<close>;
  other code points are written as numbers.
\<close>

type_synonym pystr = "nat list"

definition str :: "string \<Rightarrow> pystr" where
  "str s = map of_char s"

text \<open>
  What \<open>json.loads\<close> returns. A float is carried as its \<open>repr\<close> (which identifies it);
  a dict as the list of its items in insertion order.
\<close>

datatype json =
    JNull
  | JBool bool
  | JInt int
  | JFloat pystr
  | JStr pystr
  | JArr "json list"
  | JObj "(pystr \<times> json) list"

datatype exn =
    TypeError
  | AttributeError
  | KeyError
  | IndexError
  | JSONDecodeError
  | HTTPStatusError
  | TransportError
  | TelegramError

text \<open>
  Library code that the repository calls and that is not part of it, taken as parameters:
  \<open>str.lower\<close> on a string with a code point above 255 (it needs the Unicode tables),
  the substitution of character references inside \<open>html.unescape\<close>, and the \<open>str()\<close>
  of a list or dict.
\<close>

record pylib =
  lower_ext :: "pystr \<Rightarrow> pystr"
  charref_sub :: "pystr \<Rightarrow> pystr"
  repr_of :: "json \<Rightarrow> pystr"

text \<open>Sequencing of steps that may raise: the first exception ends the block.\<close>

definition and_then :: "exn + 'a \<Rightarrow> ('a \<Rightarrow> exn + 'b) \<Rightarrow> exn + 'b" where
  "and_then m f = (case m of Inl e \<Rightarrow> Inl e | Inr x \<Rightarrow> f x)"

subsection \<open>Strings\<close>

text \<open>\<open>str.isspace\<close> of one code point; \<open>\s\<close> of \<open>re\<close> and \<open>str.strip\<close> use the same set.\<close>

definition isspace :: "nat \<Rightarrow> bool" where
  "isspace c \<longleftrightarrow>
     (9 \<le> c \<and> c \<le> 13) \<or> (28 \<le> c \<and> c \<le> 32) \<or> c = 133 \<or> c = 160 \<or> c = 5760 \<or>
     (8192 \<le> c \<and> c \<le> 8202) \<or> c = 8232 \<or> c = 8233 \<or> c = 8239 \<or> c = 8287 \<or> c = 12288"

text \<open>
  \<open>str.lower\<close>: below 256 the only code points with a lowercase mapping are A-Z and the
  Latin-1 capitals (192-222 without the multiplication sign 215), each 32 below its
  lowercase form.
\<close>

definition lower_latin1 :: "nat \<Rightarrow> nat" where
  "lower_latin1 c =
     (if (65 \<le> c \<and> c \<le> 90) \<or> (192 \<le> c \<and> c \<le> 222 \<and> c \<noteq> 215) then c + 32 else c)"

definition lower :: "pylib \<Rightarrow> pystr \<Rightarrow> pystr" where
  "lower lib s = (if list_all (\<lambda>c. c < 256) s then map lower_latin1 s else lower_ext lib s)"

fun startswith :: "pystr \<Rightarrow> pystr \<Rightarrow> bool" where
  "startswith s [] = True"
| "startswith [] (p # ps) = False"
| "startswith (c # cs) (p # ps) = (c = p \<and> startswith cs ps)"

text \<open>The operator \<open>sub in s\<close> on two strings.\<close>

fun str_in :: "pystr \<Rightarrow> pystr \<Rightarrow> bool" where
  "str_in sub [] = (sub = [])"
| "str_in sub (c # cs) = (startswith (c # cs) sub \<or> str_in sub cs)"

definition strip :: "pystr \<Rightarrow> pystr" where
  "strip s = rev (dropWhile isspace (rev (dropWhile isspace s)))"

fun join :: "pystr \<Rightarrow> pystr list \<Rightarrow> pystr" where
  "join sep [] = []"
| "join sep [x] = x"
| "join sep (x # y # ys) = x @ sep @ join sep (y # ys)"

fun digits :: "nat \<Rightarrow> pystr" where
  "digits n = (if n < 10 then [48 + n] else digits (n div 10) @ [48 + n mod 10])"

definition str_int :: "int \<Rightarrow> pystr" where
  "str_int i = (if i < 0 then 45 # digits (nat (- i)) else digits (nat i))"

text \<open>What an f-string puts in place of \<open>{v}\<close>.\<close>

definition py_str :: "pylib \<Rightarrow> json \<Rightarrow> pystr" where
  "py_str lib v =
     (case v of
        JNull \<Rightarrow> str ''None''
      | JBool b \<Rightarrow> (if b then str ''True'' else str ''False'')
      | JInt i \<Rightarrow> str_int i
      | JFloat r \<Rightarrow> r
      | JStr s \<Rightarrow> s
      | JArr xs \<Rightarrow> repr_of lib v
      | JObj d \<Rightarrow> repr_of lib v)"

subsection \<open>Truth values, dicts, iteration\<close>

fun truthy :: "json \<Rightarrow> bool" where
  "truthy JNull = False"
| "truthy (JBool b) = b"
| "truthy (JInt i) = (i \<noteq> 0)"
| "truthy (JFloat r) = (r \<noteq> str ''0.0'' \<and> r \<noteq> str ''-0.0'')"
| "truthy (JStr s) = (s \<noteq> [])"
| "truthy (JArr xs) = (xs \<noteq> [])"
| "truthy (JObj d) = (d \<noteq> [])"

definition py_or :: "json \<Rightarrow> json \<Rightarrow> json" where
  "py_or a b = (if truthy a then a else b)"

text \<open>\<open>d.get(key, default)\<close> on a dict, and \<open>v[key]\<close>, \<open>v[0]\<close>, \<open>v[1:]\<close> on any value.\<close>

definition get :: "(pystr \<times> json) list \<Rightarrow> pystr \<Rightarrow> json \<Rightarrow> json" where
  "get d key dflt = (case map_of d key of None \<Rightarrow> dflt | Some v \<Rightarrow> v)"

definition getitem :: "json \<Rightarrow> pystr \<Rightarrow> exn + json" where
  "getitem v key =
     (case v of
        JObj d \<Rightarrow> (case map_of d key of None \<Rightarrow> Inl KeyError | Some x \<Rightarrow> Inr x)
      | _ \<Rightarrow> Inl TypeError)"

definition getitem_0 :: "json \<Rightarrow> exn + json" where
  "getitem_0 v =
     (case v of
        JArr xs \<Rightarrow> (case xs of [] \<Rightarrow> Inl IndexError | x # _ \<Rightarrow> Inr x)
      | JStr s \<Rightarrow> (case s of [] \<Rightarrow> Inl IndexError | c # _ \<Rightarrow> Inr (JStr [c]))
      | JObj d \<Rightarrow> Inl KeyError
      | _ \<Rightarrow> Inl TypeError)"

definition slice_from_1 :: "json \<Rightarrow> exn + json" where
  "slice_from_1 v =
     (case v of
        JArr xs \<Rightarrow> Inr (JArr (drop 1 xs))
      | JStr s \<Rightarrow> Inr (JStr (drop 1 s))
      | _ \<Rightarrow> Inl TypeError)"

text \<open>The items a \<open>for\<close> loop (or \<open>str.join\<close>) draws from a value.\<close>

definition py_iter :: "json \<Rightarrow> exn + json list" where
  "py_iter v =
     (case v of
        JArr xs \<Rightarrow> Inr xs
      | JStr s \<Rightarrow> Inr (map (\<lambda>c. JStr [c]) s)
      | JObj d \<Rightarrow> Inr (map (\<lambda>kv. JStr (fst kv)) d)
      | _ \<Rightarrow> Inl TypeError)"

fun strings_of :: "json list \<Rightarrow> exn + pystr list" where
  "strings_of [] = Inr []"
| "strings_of (JStr s # xs) = and_then (strings_of xs) (\<lambda>ss. Inr (s # ss))"
| "strings_of (x # xs) = Inl TypeError"

definition str_join :: "pystr \<Rightarrow> json \<Rightarrow> exn + pystr" where
  "str_join sep v =
     and_then (py_iter v) (\<lambda>xs. and_then (strings_of xs) (\<lambda>ss. Inr (join sep ss)))"

text \<open>\<open>v.lower()\<close>: only a \<open>str\<close> has the method.\<close>

definition method_lower :: "pylib \<Rightarrow> json \<Rightarrow> exn + pystr" where
  "method_lower lib v = (case v of JStr s \<Rightarrow> Inr (lower lib s) | _ \<Rightarrow> Inl AttributeError)"

text \<open>A loop that appends to a list and is left by the first exception.\<close>

fun collect :: "('a \<Rightarrow> exn + 'b list) \<Rightarrow> 'a list \<Rightarrow> exn + 'b list" where
  "collect f [] = Inr []"
| "collect f (x # xs) =
     and_then (f x) (\<lambda>ys. and_then (collect f xs) (\<lambda>rest. Inr (ys @ rest)))"

section \<open>clean\_html\<close>

text \<open>
  \<open>re.sub(r"<[^>]+>", " ", text)\<close>: at a \<open><\<close> the pattern matches when a non-empty run of
  characters other than \<open>>\<close> follows and a \<open>>\<close> ends it; the match becomes one space and
  the scan goes on behind it.
\<close>

function strip_tags :: "pystr \<Rightarrow> pystr" where
  "strip_tags [] = []"
| "strip_tags (c # cs) =
     (if c = 60 \<and> takeWhile (\<lambda>x. x \<noteq> 62) cs \<noteq> [] \<and> dropWhile (\<lambda>x. x \<noteq> 62) cs \<noteq> []
      then 32 # strip_tags (tl (dropWhile (\<lambda>x. x \<noteq> 62) cs))
      else c # strip_tags cs)"
  by pat_completeness auto
termination
proof (relation "measure length")
  fix c :: nat and cs :: "nat list"
  assume "c = 60 \<and> takeWhile (\<lambda>x. x \<noteq> 62) cs \<noteq> [] \<and> dropWhile (\<lambda>x. x \<noteq> 62) cs \<noteq> []"
  have "length (tl (dropWhile (\<lambda>x. x \<noteq> 62) cs)) \<le> length (dropWhile (\<lambda>x. x \<noteq> 62) cs)"
    by simp
  also have "\<dots> \<le> length cs"
    by (rule length_dropWhile_le)
  finally show "(tl (dropWhile (\<lambda>x. x \<noteq> 62) cs), c # cs) \<in> measure length"
    by simp
qed simp_all

text \<open>\<open>html.unescape\<close>: a string without \<open>&\<close> is returned as it is.\<close>

definition unescape :: "pylib \<Rightarrow> pystr \<Rightarrow> pystr" where
  "unescape lib s = (if 38 \<in> set s then charref_sub lib s else s)"

text \<open>\<open>re.sub(r"\s+", " ", text)\<close>: every maximal run of whitespace becomes one space.\<close>

function collapse_ws :: "pystr \<Rightarrow> pystr" where
  "collapse_ws [] = []"
| "collapse_ws (c # cs) =
     (if isspace c then 32 # collapse_ws (dropWhile isspace cs) else c # collapse_ws cs)"
  by pat_completeness auto
termination
  by (relation "measure length") (simp_all add: length_dropWhile_le less_Suc_eq_le)

definition clean_html :: "pylib \<Rightarrow> pystr \<Rightarrow> pystr" where
  "clean_html lib text = strip (collapse_ws (unescape lib (strip_tags text)))"

text \<open>The call \<open>clean_html(v)\<close> on a value: \<open>re.sub\<close> refuses what is not a \<open>str\<close>.\<close>

definition clean_html_of :: "pylib \<Rightarrow> json \<Rightarrow> exn + pystr" where
  "clean_html_of lib v = (case v of JStr s \<Rightarrow> Inr (clean_html lib s) | _ \<Rightarrow> Inl TypeError)"

section \<open>Configuration\<close>

definition KEYWORDS :: "pystr list" where
  "KEYWORDS =
     [str ''frontend'', str ''backend'', str ''fullstack'', str ''full-stack'', str ''full stack'',
      str ''react'', str ''next.js'', str ''nextjs'', str ''vue'', str ''angular'', str ''svelte'',
      str ''node'', str ''django'', str ''flask'', str ''fastapi'', str ''laravel'', str ''php'',
      str ''typescript'', str ''javascript'', str ''python'',
      str ''mobile'', str ''react native'', str ''flutter'', str ''ios'', str ''android'',
      str ''web developer'', str ''web dev'', str ''software engineer'', str ''developer'',
      str ''d'' @ [233] @ str ''veloppeur'', str ''developpeur'']"

record profil =
  nom :: pystr
  competences :: pystr
  experience :: pystr
  portfolio :: pystr

definition PROFIL_DEFAUT :: profil where
  "PROFIL_DEFAUT =
     \<lparr> nom = str ''Camel'',
       competences = str ''React, Next.js, React Native, Node.js, TypeScript, Python, Flutter'',
       experience =
         str ''D'' @ [233] @ str ''veloppeur web & mobile freelance avec exp'' @ [233]
         @ str ''rience en cr'' @ [233] @ str ''ation d'' @ [39]
         @ str ''applications compl'' @ [232] @ str ''tes (frontend + backend + mobile). Sp''
         @ [233] @ str ''cialis'' @ [233] @ str '' en React/Next.js et React Native.'',
       portfolio = str ''https://github.com/Camel'' \<rparr>"

text \<open>The text both branches of the draft generator return when generation fails.\<close>

definition GENERATION_ERROR :: pystr where
  "GENERATION_ERROR =
     [9888, 65039] @ str '' Erreur lors de la g'' @ [233] @ str ''n'' @ [233]
     @ str ''ration de la candidature.''"

section \<open>Fetch jobs\<close>

text \<open>
  What an HTTP call comes back with: no response at all (the client raises), or a status
  with a body that is JSON (\<open>Some\<close>) or not (\<open>None\<close>: \<open>resp.json()\<close> raises).
\<close>

datatype http_result = TransportFailure | Response nat "json option"

text \<open>A posting, the dict the adapters build. Fields copied from the item keep its values.\<close>

record job =
  job_id :: pystr
  title :: json
  company :: json
  url :: json
  description :: pystr
  source :: pystr
  date :: json

text \<open>\<open>any(kw in search_text for kw in KEYWORDS)\<close>, the test both adapters apply.\<close>

definition any_keyword :: "pystr \<Rightarrow> bool" where
  "any_keyword search_text = list_ex (\<lambda>kw. str_in kw search_text) KEYWORDS"

text \<open>
  The body of the loop of \<open>fetch_remoteok\<close> on a dict: first the text the keywords are
  looked for in, then the postings the item appends.
\<close>

definition remoteok_search_text :: "pylib \<Rightarrow> (pystr \<times> json) list \<Rightarrow> exn + pystr" where
  "remoteok_search_text lib d =
     and_then (method_lower lib (py_or (get d (str ''position'') JNull) (JStr []))) (\<lambda>t.
     and_then (str_join (str '' '') (py_or (get d (str ''tags'') JNull) (JArr []))) (\<lambda>joined.
       let tags = lower lib joined;
           comp = py_or (get d (str ''company'') JNull) (JStr [])
       in Inr (lower lib (t @ str '' '' @ tags @ str '' '' @ py_str lib comp))))"

definition remoteok_job :: "pylib \<Rightarrow> (pystr \<times> json) list \<Rightarrow> exn + job" where
  "remoteok_job lib d =
     and_then (clean_html_of lib (py_or (get d (str ''description'') JNull) (JStr [])))
       (\<lambda>cleaned. Inr
          \<lparr> job_id = str ''rok-'' @ py_str lib (get d (str ''id'') (JStr [])),
            title = get d (str ''position'') (JStr (str ''N/A'')),
            company = get d (str ''company'') (JStr (str ''N/A'')),
            url = get d (str ''url'')
                    (JStr (str ''https://remoteok.com/remote-jobs/''
                           @ py_str lib (get d (str ''id'') (JStr [])))),
            description = take 500 cleaned,
            source = str ''RemoteOK'',
            date = get d (str ''date'') (JStr []) \<rparr>)"

definition remoteok_item :: "pylib \<Rightarrow> json \<Rightarrow> exn + job list" where
  "remoteok_item lib item =
     (case item of
        JObj d \<Rightarrow>
          and_then (remoteok_search_text lib d) (\<lambda>search_text.
            if any_keyword search_text
            then and_then (remoteok_job lib d) (\<lambda>job. Inr [job])
            else Inr [])
      | _ \<Rightarrow> Inl AttributeError)"

text \<open>
  The \<open>try\<close> block of \<open>fetch_remoteok\<close>: \<open>raise_for_status\<close> raises outside 200-299, the
  first element of the answer is skipped.
\<close>

definition fetch_remoteok_try :: "pylib \<Rightarrow> http_result \<Rightarrow> exn + job list" where
  "fetch_remoteok_try lib r =
     (case r of
        TransportFailure \<Rightarrow> Inl TransportError
      | Response status body \<Rightarrow>
          if \<not> (200 \<le> status \<and> status \<le> 299) then Inl HTTPStatusError
          else (case body of
                  None \<Rightarrow> Inl JSONDecodeError
                | Some data \<Rightarrow>
                    and_then (slice_from_1 data) (\<lambda>rest.
                    and_then (py_iter rest) (\<lambda>items.
                    collect (remoteok_item lib) items))))"

definition fetch_remoteok :: "pylib \<Rightarrow> http_result \<Rightarrow> job list" where
  "fetch_remoteok lib r = (case fetch_remoteok_try lib r of Inl e \<Rightarrow> [] | Inr jobs \<Rightarrow> jobs)"

definition arbeitnow_search_text :: "pylib \<Rightarrow> (pystr \<times> json) list \<Rightarrow> exn + pystr" where
  "arbeitnow_search_text lib d =
     and_then (method_lower lib (py_or (get d (str ''title'') JNull) (JStr []))) (\<lambda>t.
     and_then (method_lower lib (py_or (get d (str ''description'') JNull) (JStr []))) (\<lambda>desc.
     and_then (str_join (str '' '') (py_or (get d (str ''tags'') JNull) (JArr []))) (\<lambda>joined.
       let tags = lower lib joined
       in Inr (t @ str '' '' @ desc @ str '' '' @ tags))))"

definition arbeitnow_job :: "pylib \<Rightarrow> (pystr \<times> json) list \<Rightarrow> exn + job" where
  "arbeitnow_job lib d =
     and_then (clean_html_of lib (py_or (get d (str ''description'') JNull) (JStr [])))
       (\<lambda>cleaned. Inr
          \<lparr> job_id = str ''abn-'' @ py_str lib (get d (str ''slug'') (JStr [])),
            title = get d (str ''title'') (JStr (str ''N/A'')),
            company = get d (str ''company_name'') (JStr (str ''N/A'')),
            url = get d (str ''url'') (JStr []),
            description = take 500 cleaned,
            source = str ''Arbeitnow'',
            date = get d (str ''created_at'') (JStr []) \<rparr>)"

definition arbeitnow_item :: "pylib \<Rightarrow> json \<Rightarrow> exn + job list" where
  "arbeitnow_item lib item =
     (case item of
        JObj d \<Rightarrow>
          and_then (arbeitnow_search_text lib d) (\<lambda>search_text.
            if any_keyword search_text
            then and_then (arbeitnow_job lib d) (\<lambda>job. Inr [job])
            else Inr [])
      | _ \<Rightarrow> Inl AttributeError)"

definition fetch_arbeitnow_try :: "pylib \<Rightarrow> http_result \<Rightarrow> exn + job list" where
  "fetch_arbeitnow_try lib r =
     (case r of
        TransportFailure \<Rightarrow> Inl TransportError
      | Response status body \<Rightarrow>
          if \<not> (200 \<le> status \<and> status \<le> 299) then Inl HTTPStatusError
          else (case body of
                  None \<Rightarrow> Inl JSONDecodeError
                | Some data \<Rightarrow>
                    (case data of
                       JObj d \<Rightarrow>
                         and_then (py_iter (get d (str ''data'') (JArr []))) (\<lambda>items.
                         collect (arbeitnow_item lib) items)
                     | _ \<Rightarrow> Inl AttributeError)))"

definition fetch_arbeitnow :: "pylib \<Rightarrow> http_result \<Rightarrow> job list" where
  "fetch_arbeitnow lib r = (case fetch_arbeitnow_try lib r of Inl e \<Rightarrow> [] | Inr jobs \<Rightarrow> jobs)"

text \<open>
  \<open>fetch_jobs\<close> gathers the two adapters and concatenates their lists in that order;
  the arguments are what the two job boards answer.
\<close>

definition fetch_jobs :: "pylib \<Rightarrow> http_result \<Rightarrow> http_result \<Rightarrow> job list" where
  "fetch_jobs lib remoteok arbeitnow = fetch_remoteok lib remoteok @ fetch_arbeitnow lib arbeitnow"

section \<open>Draft generation\<close>

text \<open>
  \<open>data["choices"][0]["message"]["content"]\<close>, and the \<open>try\<close> block of
  \<open>generate_candidature\<close> given what the POST comes back with: a status other than 200
  returns the error text, otherwise the block returns that content, whatever value it is.
\<close>

definition content_of :: "json \<Rightarrow> exn + json" where
  "content_of data =
     and_then (getitem data (str ''choices'')) (\<lambda>choices.
     and_then (getitem_0 choices) (\<lambda>choice.
     and_then (getitem choice (str ''message'')) (\<lambda>message.
     getitem message (str ''content''))))"

definition generate_candidature_try :: "http_result \<Rightarrow> exn + json" where
  "generate_candidature_try r =
     (case r of
        TransportFailure \<Rightarrow> Inl TransportError
      | Response status body \<Rightarrow>
          if status \<noteq> 200 then Inr (JStr GENERATION_ERROR)
          else (case body of
                  None \<Rightarrow> Inl JSONDecodeError
                | Some data \<Rightarrow> content_of data))"

text \<open>
  \<open>generate_candidature(job, profil)\<close>; \<open>post\<close> is the text-generation service, which
  answers the request built from the posting and the profile.
\<close>

definition generate_candidature :: "(job \<Rightarrow> profil \<Rightarrow> http_result) \<Rightarrow> job \<Rightarrow> profil \<Rightarrow> json" where
  "generate_candidature post job profil =
     (case generate_candidature_try (post job profil) of
        Inl e \<Rightarrow> JStr GENERATION_ERROR
      | Inr candidature \<Rightarrow> candidature)"

section \<open>Messages\<close>

definition special :: pystr where
  "special = [95, 42, 91, 93, 40, 41, 126, 96, 62, 35, 43, 45, 61, 124, 123, 125, 46, 33]"

text \<open>The loop of \<open>escape_md\<close> over the items of its argument.\<close>

fun escape_chars :: "json list \<Rightarrow> exn + pystr" where
  "escape_chars [] = Inr []"
| "escape_chars (JStr ch # chs) =
     and_then (escape_chars chs) (\<lambda>rest.
       Inr ((if str_in ch special then 92 # ch else ch) @ rest))"
| "escape_chars (x # chs) = Inl TypeError"

definition escape_md :: "json \<Rightarrow> exn + pystr" where
  "escape_md v = and_then (py_iter v) escape_chars"

text \<open>
  The texts the bot sends, each named by the place that builds it, with the values put
  into it. \<open>Formatted job c\<close> is the MarkdownV2 text of \<open>format_job_message(job, c)\<close>,
  \<open>Fallback job c\<close> the plain text of the \<open>except\<close> branch.
\<close>

datatype message =
    Searching
  | NoNewMissions
  | Found nat nat
  | Formatted job json
  | Fallback job json
  | Finished nat
  | AutoFound nat
  | AutoOn
  | AutoOff

definition format_job_message :: "job \<Rightarrow> json \<Rightarrow> exn + message" where
  "format_job_message job candidature =
     and_then (escape_md (title job)) (\<lambda>t.
     and_then (escape_md (company job)) (\<lambda>c.
     and_then (escape_md (JStr (source job))) (\<lambda>s.
     Inr (Formatted job candidature))))"

section \<open>The bot\<close>

text \<open>
  \<open>context.bot_data\<close>: each key is absent (\<open>None\<close>) or holds a value. \<open>sent_jobs\<close> is
  the set of the ids of the postings already sent.
\<close>

record bot_data =
  profile :: "profil option"
  sent_jobs :: "pystr set option"
  auto_enabled :: "bool option"
  auto_chat_id :: "int option"

text \<open>
  What the outside does during one call of a handler: the answers of the two job boards,
  the answer of the text-generation service to the n-th request, and whether the n-th
  \<open>send_message\<close> goes through (\<open>False\<close>: it raises).
\<close>

record world =
  remoteok_api :: http_result
  arbeitnow_api :: http_result
  groq_api :: "nat \<Rightarrow> job \<Rightarrow> profil \<Rightarrow> http_result"
  telegram :: "nat \<Rightarrow> int \<Rightarrow> message \<Rightarrow> bool"

text \<open>The calls a handler makes to the outside, in order.\<close>

datatype event =
    HttpGet pystr
  | GroqPost job
  | Send int message bool

fun is_send :: "event \<Rightarrow> bool" where
  "is_send (Send chat_id msg ok) = True"
| "is_send e = False"

fun is_post :: "event \<Rightarrow> bool" where
  "is_post (GroqPost job) = True"
| "is_post e = False"

definition send_message :: "world \<Rightarrow> int \<Rightarrow> message \<Rightarrow> event list \<Rightarrow> bool \<times> event list" where
  "send_message w chat_id msg tr =
     (let ok = telegram w (length (filter is_send tr)) chat_id msg
      in (ok, tr @ [Send chat_id msg ok]))"

text \<open>
  One pass of the loop \<open>for job in batch\<close>, the same text in both handlers: the state is
  the set \<open>sent_jobs\<close> and the calls made so far.
\<close>

definition send_fallback ::
  "world \<Rightarrow> int \<Rightarrow> job \<Rightarrow> json \<Rightarrow> pystr set \<times> event list \<Rightarrow> pystr set \<times> event list" where
  "send_fallback w chat_id job candidature st =
     (case send_message w chat_id (Fallback job candidature) (snd st) of
        (ok, tr) \<Rightarrow> (if ok then insert (job_id job) (fst st) else fst st, tr))"

definition process_job ::
  "world \<Rightarrow> int \<Rightarrow> profil \<Rightarrow> job \<Rightarrow> pystr set \<times> event list \<Rightarrow> pystr set \<times> event list" where
  "process_job w chat_id profil job st =
     (let candidature =
            generate_candidature (groq_api w (length (filter is_post (snd st)))) job profil;
          tr1 = snd st @ [GroqPost job]
      in case format_job_message job candidature of
           Inl e \<Rightarrow> send_fallback w chat_id job candidature (fst st, tr1)
         | Inr msg \<Rightarrow>
             (case send_message w chat_id msg tr1 of
                (ok, tr2) \<Rightarrow>
                  if ok then (insert (job_id job) (fst st), tr2)
                  else send_fallback w chat_id job candidature (fst st, tr2)))"

fun process_batch ::
  "world \<Rightarrow> int \<Rightarrow> profil \<Rightarrow> job list \<Rightarrow> pystr set \<times> event list \<Rightarrow> pystr set \<times> event list" where
  "process_batch w chat_id profil [] st = st"
| "process_batch w chat_id profil (job # batch) st =
     process_batch w chat_id profil batch (process_job w chat_id profil job st)"

text \<open>What a call of a handler leaves: the store, the calls it made, and how it ended.\<close>

record outcome =
  store :: bot_data
  trace :: "event list"
  raised :: "exn option"

definition get_profile :: "bot_data \<Rightarrow> profil" where
  "get_profile bd = (case profile bd of None \<Rightarrow> PROFIL_DEFAUT | Some p \<Rightarrow> p)"

text \<open>\<open>bot_data.setdefault("sent_jobs", set())\<close>: the store afterwards, and the set.\<close>

definition setdefault_sent_jobs :: "bot_data \<Rightarrow> bot_data \<times> pystr set" where
  "setdefault_sent_jobs bd =
     (case sent_jobs bd of
        None \<Rightarrow> (bd\<lparr>sent_jobs := Some {}\<rparr>, {})
      | Some s \<Rightarrow> (bd, s))"

definition new_jobs_of :: "pystr set \<Rightarrow> job list \<Rightarrow> job list" where
  "new_jobs_of sent jobs = filter (\<lambda>j. job_id j \<notin> sent) jobs"

definition missions_command :: "pylib \<Rightarrow> world \<Rightarrow> int \<Rightarrow> bot_data \<Rightarrow> outcome" where
  "missions_command lib w chat_id bd =
     (case send_message w chat_id Searching [] of
        (ok0, tr0) \<Rightarrow>
          if \<not> ok0 then \<lparr>store = bd, trace = tr0, raised = Some TelegramError\<rparr>
          else
            (let profil = get_profile bd;
                 bd1 = fst (setdefault_sent_jobs bd);
                 sent = snd (setdefault_sent_jobs bd);
                 jobs = fetch_jobs lib (remoteok_api w) (arbeitnow_api w);
                 tr1 = tr0 @ [HttpGet (str ''https://remoteok.com/api''),
                              HttpGet (str ''https://www.arbeitnow.com/api/job-board-api'')];
                 new_jobs = new_jobs_of sent jobs
             in if new_jobs = [] then
                  (case send_message w chat_id NoNewMissions tr1 of
                     (ok, tr) \<Rightarrow>
                       \<lparr>store = bd1, trace = tr,
                        raised = (if ok then None else Some TelegramError)\<rparr>)
                else
                  (let batch = take 5 new_jobs in
                   case send_message w chat_id (Found (length new_jobs) (length batch)) tr1 of
                     (ok1, tr2) \<Rightarrow>
                       if \<not> ok1 then \<lparr>store = bd1, trace = tr2, raised = Some TelegramError\<rparr>
                       else
                         (case process_batch w chat_id profil batch (sent, tr2) of
                            (sent', tr3) \<Rightarrow>
                              (case send_message w chat_id (Finished (length batch)) tr3 of
                                 (ok2, tr4) \<Rightarrow>
                                   \<lparr>store = bd1\<lparr>sent_jobs := Some sent'\<rparr>, trace = tr4,
                                    raised = (if ok2 then None else Some TelegramError)\<rparr>)))))"

definition auto_command :: "world \<Rightarrow> int \<Rightarrow> bot_data \<Rightarrow> outcome" where
  "auto_command w chat_id bd =
     (let enabled = \<not> (case auto_enabled bd of None \<Rightarrow> False | Some b \<Rightarrow> b);
          bd1 = bd\<lparr>auto_enabled := Some enabled\<rparr>
      in if enabled then
           (case send_message w chat_id AutoOn [] of
              (ok, tr) \<Rightarrow>
                \<lparr>store = bd1\<lparr>auto_chat_id := Some chat_id\<rparr>, trace = tr,
                 raised = (if ok then None else Some TelegramError)\<rparr>)
         else
           (case send_message w chat_id AutoOff [] of
              (ok, tr) \<Rightarrow>
                \<lparr>store = bd1, trace = tr,
                 raised = (if ok then None else Some TelegramError)\<rparr>))"

text \<open>\<open>not chat_id\<close> holds for an absent key and for the id 0.\<close>

definition scheduled_prospection :: "pylib \<Rightarrow> world \<Rightarrow> bot_data \<Rightarrow> outcome" where
  "scheduled_prospection lib w bd =
     (if \<not> (case auto_enabled bd of None \<Rightarrow> False | Some b \<Rightarrow> b)
      then \<lparr>store = bd, trace = [], raised = None\<rparr>
      else
        (case auto_chat_id bd of
           None \<Rightarrow> \<lparr>store = bd, trace = [], raised = None\<rparr>
         | Some chat_id \<Rightarrow>
             if chat_id = 0 then \<lparr>store = bd, trace = [], raised = None\<rparr>
             else
               (let profil = get_profile bd;
                    bd1 = fst (setdefault_sent_jobs bd);
                    sent = snd (setdefault_sent_jobs bd);
                    jobs = fetch_jobs lib (remoteok_api w) (arbeitnow_api w);
                    tr1 = [HttpGet (str ''https://remoteok.com/api''),
                           HttpGet (str ''https://www.arbeitnow.com/api/job-board-api'')];
                    new_jobs = new_jobs_of sent jobs
                in if new_jobs = [] then \<lparr>store = bd1, trace = tr1, raised = None\<rparr>
                   else
                     (let batch = take 5 new_jobs in
                      case send_message w chat_id (AutoFound (length new_jobs)) tr1 of
                        (ok1, tr2) \<Rightarrow>
                          if \<not> ok1
                          then \<lparr>store = bd1, trace = tr2, raised = Some TelegramError\<rparr>
                          else
                            (case process_batch w chat_id profil batch (sent, tr2) of
                               (sent', tr3) \<Rightarrow>
                                 \<lparr>store = bd1\<lparr>sent_jobs := Some sent'\<rparr>, trace = tr3,
                                  raised = None\<rparr>)))))"

section \<open>Reading a store and a trace\<close>

text \<open>The ids marked as sent: the set under the key, none while the key is absent.\<close>

definition tracker :: "bot_data \<Rightarrow> pystr set" where
  "tracker bd = (case sent_jobs bd of None \<Rightarrow> {} | Some s \<Rightarrow> s)"

fun drafted :: "event list \<Rightarrow> job list" where
  "drafted [] = []"
| "drafted (GroqPost job # tr) = job # drafted tr"
| "drafted (e # tr) = drafted tr"



fun sends :: "event list \<Rightarrow> message list" where
  "sends [] = []"
| "sends (Send chat_id msg ok # tr) = msg # sends tr"
| "sends (e # tr) = sends tr"

subsection \<open>Reading a text\<close>

text \<open>
  For stating what \<open>clean_html\<close> achieves: a text holds a tag when the pattern of
  \<open>strip_tags\<close> matches somewhere in it; \<open>spaced prev s\<close> says that every whitespace
  character of \<open>s\<close> is a space that neither follows whitespace nor, when \<open>prev\<close> holds,
  stands first.
\<close>

definition has_tag :: "pystr \<Rightarrow> bool" where
  "has_tag s \<longleftrightarrow> (\<exists>p t q. s = p @ [60] @ t @ [62] @ q \<and> t \<noteq> [] \<and> 62 \<notin> set t)"

fun spaced :: "bool \<Rightarrow> pystr \<Rightarrow> bool" where
  "spaced prev [] = True"
| "spaced prev (c # cs) =
     (if isspace c then c = 32 \<and> \<not> prev \<and> spaced True cs else spaced False cs)"

section \<open>Sample inputs\<close>

text \<open>
  A library whose parameters are never reached by the samples, a job board answering with
  postings for a React developer under given native ids, a text-generation service that
  always answers, and a chat that lets a message through when \<open>ok\<close> says so.
\<close>

definition plain_lib :: pylib where
  "plain_lib = \<lparr> lower_ext = (\<lambda>s. s), charref_sub = (\<lambda>s. s), repr_of = (\<lambda>v. []) \<rparr>"

definition react_item :: "pystr \<Rightarrow> json" where
  "react_item n = JObj [(str ''position'', JStr (str ''React dev'')), (str ''id'', JStr n)]"

definition react_job :: "pystr \<Rightarrow> job" where
  "react_job n =
     \<lparr> job_id = str ''rok-'' @ n, title = JStr (str ''React dev''), company = JStr (str ''N/A''),
       url = JStr (str ''https://remoteok.com/remote-jobs/'' @ n), description = [],
       source = str ''RemoteOK'', date = JStr [] \<rparr>"

definition remoteok_answer :: "pystr list \<Rightarrow> http_result" where
  "remoteok_answer ns = Response 200 (Some (JArr (JObj [] # map react_item ns)))"

definition groq_answer :: http_result where
  "groq_answer =
     Response 200 (Some (JObj [(str ''choices'',
       JArr [JObj [(str ''message'', JObj [(str ''content'', JStr (str ''Hi''))])]])]))"

definition sample_world :: "pystr list \<Rightarrow> (message \<Rightarrow> bool) \<Rightarrow> world" where
  "sample_world ns ok =
     \<lparr> remoteok_api = remoteok_answer ns, arbeitnow_api = TransportFailure,
       groq_api = (\<lambda>n job profil. groq_answer), telegram = (\<lambda>n chat_id msg. ok msg) \<rparr>"

text \<open>
  A text-generation service that answers with status 200 and a message whose content is
  \<open>null\<close>, and the sample world of one posting with that service in it.
\<close>

definition null_content_answer :: http_result where
  "null_content_answer =
     Response 200 (Some (JObj [(str ''choices'',
       JArr [JObj [(str ''message'',
         JObj [(str ''role'', JStr (str ''assistant'')), (str ''content'', JNull)])]])]))"

definition null_content_world :: world where
  "null_content_world =
     \<lparr> remoteok_api = remoteok_answer [str ''7''], arbeitnow_api = TransportFailure,
       groq_api = (\<lambda>n job profil. null_content_answer), telegram = (\<lambda>n chat_id msg. True) \<rparr>"

text \<open>A fresh store, and one with auto-prospection on for chat 5.\<close>

definition empty_store :: bot_data where
  "empty_store = \<lparr> profile = None, sent_jobs = None, auto_enabled = None, auto_chat_id = None \<rparr>"

definition auto_store :: bot_data where
  "auto_store = \<lparr> profile = None, sent_jobs = None, auto_enabled = Some True, auto_chat_id = Some 5 \<rparr>"



text \<open>An answer of Arbeitnow with one relevant posting.\<close>

definition senior_item :: json where
  "senior_item =
     JObj [(str ''title'', JStr (str ''Senior React Developer'')), (str ''tags'', JArr []),
           (str ''description'', JStr []), (str ''slug'', JStr (str ''senior-react''))]"

definition senior_job :: job where
  "senior_job =
     \<lparr> job_id = str ''abn-senior-react'', title = JStr (str ''Senior React Developer''),
       company = JStr (str ''N/A''), url = JStr [], description = [],
       source = str ''Arbeitnow'', date = JStr [] \<rparr>"

definition arbeitnow_answer :: http_result where
  "arbeitnow_answer = Response 200 (Some (JObj [(str ''data'', JArr [senior_item])]))"

text \<open>Raw descriptions: one with markup, one that is cut at 500 characters behind a space.\<close>

definition html_raw :: pystr where
  "html_raw = str ''<p>Hello   <b>World</b></p> ''"

definition html_item :: json where
  "html_item =
     JObj [(str ''position'', JStr (str ''React dev'')), (str ''description'', JStr html_raw)]"

definition html_job :: job where
  "html_job =
     \<lparr> job_id = str ''rok-'', title = JStr (str ''React dev''), company = JStr (str ''N/A''),
       url = JStr (str ''https://remoteok.com/remote-jobs/''), description = str ''Hello World'',
       source = str ''RemoteOK'', date = JStr [] \<rparr>"

definition long_item :: json where
  "long_item =
     JObj [(str ''position'', JStr (str ''React dev'')),
           (str ''description'', JStr (replicate 499 97 @ [32, 98]))]"

section \<open>The loop over a batch\<close>




lemma sends_append: "sends (a @ b) = sends a @ sends b"
  by (induction a rule: sends.induct) simp_all




lemma tracker_setdefault:
  "snd (setdefault_sent_jobs bd) = tracker bd"
  "tracker (fst (setdefault_sent_jobs bd)) = tracker bd"
  "tracker (b\<lparr>sent_jobs := Some s\<rparr>) = s"
  by (simp_all add: setdefault_sent_jobs_def tracker_def split: option.splits)















section \<open>The samples, evaluated\<close>

lemma react_search_text:
  "remoteok_search_text plain_lib [(str ''position'', JStr (str ''React dev'')), (str ''id'', JStr n)]
     = Inr (str ''react dev  '')"
  by code_simp

lemma react_relevant: "any_keyword (str ''react dev  '')"
  by code_simp

lemma react_item_job: "remoteok_item plain_lib (react_item n) = Inr [react_job n]"
  unfolding react_item_def remoteok_item_def
  by (simp add: react_search_text react_relevant and_then_def)
     (simp add: remoteok_job_def react_job_def get_def py_or_def clean_html_of_def clean_html_def
        strip_tags.simps collapse_ws.simps unescape_def strip_def py_str_def and_then_def str_def)

lemma collect_react: "collect (remoteok_item plain_lib) (map react_item ns) = Inr (map react_job ns)"
  by (induction ns) (simp_all add: react_item_job and_then_def)

lemma fetch_react:
  "fetch_jobs plain_lib (remoteok_answer ns) TransportFailure = map react_job ns"
  by (simp add: fetch_jobs_def fetch_remoteok_def fetch_remoteok_try_def fetch_arbeitnow_def
      fetch_arbeitnow_try_def remoteok_answer_def slice_from_1_def py_iter_def and_then_def
      collect_react)


lemma sample_world_simps:
  "remoteok_api (sample_world ns ok) = remoteok_answer ns"
  "arbeitnow_api (sample_world ns ok) = TransportFailure"
  "telegram (sample_world ns ok) n chat_id msg = ok msg"
  by (simp_all add: sample_world_def)

section \<open>Dispatch\<close>








section \<open>The scheduled path and the toggle\<close>

lemma setdefault_frame:
  "profile (fst (setdefault_sent_jobs bd)) = profile bd"
  "auto_enabled (fst (setdefault_sent_jobs bd)) = auto_enabled bd"
  "auto_chat_id (fst (setdefault_sent_jobs bd)) = auto_chat_id bd"
  by (simp_all add: setdefault_sent_jobs_def split: option.splits)

text \<open>
  C10. While auto-prospection is off (the flag absent or false), or no destination is
  stored (the key absent, or the id 0), a call of the scheduled handler does nothing: it
  makes no call to the outside, so it fetches nothing, drafts nothing and sends nothing,
  and it leaves the store as it was. When it runs and no fetched posting is new it still
  sends no message and leaves tracker, profile, flag and destination as they were, where
  the on-demand handler, once its opening notice went through, sends the notice that
  there is nothing new.
\<close>

theorem scheduled_guard:
  "((auto_enabled bd = None \<or> auto_enabled bd = Some False \<or>
     auto_chat_id bd = None \<or> auto_chat_id bd = Some 0)
      \<longrightarrow> scheduled_prospection lib w bd = \<lparr>store = bd, trace = [], raised = None\<rparr>) \<and>
   (new_jobs_of (tracker bd) (fetch_jobs lib (remoteok_api w) (arbeitnow_api w)) = []
      \<longrightarrow> sends (trace (scheduled_prospection lib w bd)) = [] \<and>
          drafted (trace (scheduled_prospection lib w bd)) = [] \<and>
          raised (scheduled_prospection lib w bd) = None \<and>
          tracker (store (scheduled_prospection lib w bd)) = tracker bd \<and>
          profile (store (scheduled_prospection lib w bd)) = profile bd \<and>
          auto_enabled (store (scheduled_prospection lib w bd)) = auto_enabled bd \<and>
          auto_chat_id (store (scheduled_prospection lib w bd)) = auto_chat_id bd) \<and>
   (new_jobs_of (tracker bd) (fetch_jobs lib (remoteok_api w) (arbeitnow_api w)) = [] \<and>
    telegram w 0 chat_id Searching
      \<longrightarrow> sends (trace (missions_command lib w chat_id bd)) = [Searching, NoNewMissions])"
proof (intro conjI impI)
  assume "auto_enabled bd = None \<or> auto_enabled bd = Some False \<or>
     auto_chat_id bd = None \<or> auto_chat_id bd = Some 0"
  then show "scheduled_prospection lib w bd = \<lparr>store = bd, trace = [], raised = None\<rparr>"
    by (auto simp: scheduled_prospection_def split: option.splits)
next
  assume e: "new_jobs_of (tracker bd) (fetch_jobs lib (remoteok_api w) (arbeitnow_api w)) = []"
  have s: "sends (trace (scheduled_prospection lib w bd)) = [] \<and>
          drafted (trace (scheduled_prospection lib w bd)) = [] \<and>
          raised (scheduled_prospection lib w bd) = None \<and>
          tracker (store (scheduled_prospection lib w bd)) = tracker bd \<and>
          profile (store (scheduled_prospection lib w bd)) = profile bd \<and>
          auto_enabled (store (scheduled_prospection lib w bd)) = auto_enabled bd \<and>
          auto_chat_id (store (scheduled_prospection lib w bd)) = auto_chat_id bd"
    using e
    by (auto simp: scheduled_prospection_def tracker_setdefault setdefault_frame Let_def
        split: option.splits)
  show "sends (trace (scheduled_prospection lib w bd)) = []" using s by blast
  show "drafted (trace (scheduled_prospection lib w bd)) = []" using s by blast
  show "raised (scheduled_prospection lib w bd) = None" using s by blast
  show "tracker (store (scheduled_prospection lib w bd)) = tracker bd" using s by blast
  show "profile (store (scheduled_prospection lib w bd)) = profile bd" using s by blast
  show "auto_enabled (store (scheduled_prospection lib w bd)) = auto_enabled bd" using s by blast
  show "auto_chat_id (store (scheduled_prospection lib w bd)) = auto_chat_id bd" using s by blast
next
  assume "new_jobs_of (tracker bd) (fetch_jobs lib (remoteok_api w) (arbeitnow_api w)) = [] \<and>
    telegram w 0 chat_id Searching"
  then show "sends (trace (missions_command lib w chat_id bd)) = [Searching, NoNewMissions]"
    by (simp add: missions_command_def send_message_def tracker_setdefault Let_def)
qed

theorem scheduled_guard_witness:
  "auto_enabled empty_store = None \<and>
   scheduled_prospection plain_lib (sample_world [str ''1''] (\<lambda>m. True)) empty_store
     = \<lparr>store = empty_store, trace = [], raised = None\<rparr> \<and>
   auto_chat_id (empty_store\<lparr>auto_enabled := Some True\<rparr>) = None \<and>
   scheduled_prospection plain_lib (sample_world [str ''1''] (\<lambda>m. True))
       (empty_store\<lparr>auto_enabled := Some True\<rparr>)
     = \<lparr>store = empty_store\<lparr>auto_enabled := Some True\<rparr>, trace = [], raised = None\<rparr> \<and>
   new_jobs_of (tracker auto_store) (fetch_jobs plain_lib (remoteok_answer []) TransportFailure) = [] \<and>
   sends (trace (scheduled_prospection plain_lib (sample_world [] (\<lambda>m. True)) auto_store)) = [] \<and>
   tracker (store (scheduled_prospection plain_lib (sample_world [] (\<lambda>m. True)) auto_store))
     = tracker auto_store \<and>
   telegram (sample_world [] (\<lambda>m. True)) 0 5 Searching \<and>
   sends (trace (missions_command plain_lib (sample_world [] (\<lambda>m. True)) 5 auto_store))
     = [Searching, NoNewMissions]"
proof -
  let ?w1 = "sample_world [str ''1''] (\<lambda>m. True)"
  let ?w0 = "sample_world [] (\<lambda>m. True)"
  have h1: "auto_enabled empty_store = None"
    by (simp add: empty_store_def)
  have h2: "auto_chat_id (empty_store\<lparr>auto_enabled := Some True\<rparr>) = None"
    by (simp add: empty_store_def)
  have h3: "new_jobs_of (tracker auto_store)
      (fetch_jobs plain_lib (remoteok_api ?w0) (arbeitnow_api ?w0)) = []"
    by (simp add: sample_world_simps fetch_react new_jobs_of_def)
  have h4: "telegram ?w0 0 5 Searching"
    by (simp add: sample_world_simps)
  have c1: "scheduled_prospection plain_lib ?w1 empty_store
     = \<lparr>store = empty_store, trace = [], raised = None\<rparr>"
    using scheduled_guard [where bd = empty_store and lib = plain_lib and w = ?w1] h1 by blast
  have c2: "scheduled_prospection plain_lib ?w1 (empty_store\<lparr>auto_enabled := Some True\<rparr>)
     = \<lparr>store = empty_store\<lparr>auto_enabled := Some True\<rparr>, trace = [], raised = None\<rparr>"
    using scheduled_guard [where bd = "empty_store\<lparr>auto_enabled := Some True\<rparr>"
        and lib = plain_lib and w = ?w1] h2 by blast
  note g = scheduled_guard [where bd = auto_store and lib = plain_lib and w = ?w0 and chat_id = 5]
  have c3: "sends (trace (scheduled_prospection plain_lib ?w0 auto_store)) = []"
      "tracker (store (scheduled_prospection plain_lib ?w0 auto_store)) = tracker auto_store"
    using g h3 by blast+
  have c4: "sends (trace (missions_command plain_lib ?w0 5 auto_store)) = [Searching, NoNewMissions]"
    using g h3 h4 by blast
  show ?thesis
    using h1 h2 h3 h4 c1 c2 c3 c4 unfolding sample_world_simps by simp
qed

text \<open>
  C9, amended. The toggle leaves profile and tracker as they were. Turning
  auto-prospection off leaves the stored destination as it was; turning it on stores the
  chat the toggle came from as the destination, whatever was stored before.
\<close>

theorem auto_toggle:
  "profile (store (auto_command w chat_id bd)) = profile bd \<and>
   sent_jobs (store (auto_command w chat_id bd)) = sent_jobs bd \<and>
   (auto_enabled bd = Some True
      \<longrightarrow> auto_enabled (store (auto_command w chat_id bd)) = Some False \<and>
          auto_chat_id (store (auto_command w chat_id bd)) = auto_chat_id bd) \<and>
   (auto_enabled bd \<noteq> Some True
      \<longrightarrow> auto_enabled (store (auto_command w chat_id bd)) = Some True \<and>
          auto_chat_id (store (auto_command w chat_id bd)) = Some chat_id)"
  by (auto simp: auto_command_def send_message_def Let_def split: option.splits)

theorem auto_toggle_witness:
  "auto_enabled auto_store = Some True \<and>
   auto_enabled (store (auto_command (sample_world [] (\<lambda>m. True)) 9 auto_store)) = Some False \<and>
   auto_chat_id (store (auto_command (sample_world [] (\<lambda>m. True)) 9 auto_store)) = Some 5 \<and>
   auto_enabled empty_store \<noteq> Some True \<and>
   auto_enabled (store (auto_command (sample_world [] (\<lambda>m. True)) 9 empty_store)) = Some True \<and>
   auto_chat_id (store (auto_command (sample_world [] (\<lambda>m. True)) 9 empty_store)) = Some 9"
proof -
  let ?w = "sample_world [] (\<lambda>m. True)"
  have h1: "auto_enabled auto_store = Some True" and d: "auto_chat_id auto_store = Some 5"
    by (simp_all add: auto_store_def)
  have h2: "auto_enabled empty_store \<noteq> Some True"
    by (simp add: empty_store_def)
  show ?thesis
    using h1 h2 d auto_toggle [where w = ?w and chat_id = 9 and bd = auto_store]
      auto_toggle [where w = ?w and chat_id = 9 and bd = empty_store]
    by simp
qed

theorem reenable_takes_new_chat:
  "auto_chat_id (store (auto_command (sample_world [] (\<lambda>m. True)) 111 empty_store)) = Some 111 \<and>
   auto_enabled (store (auto_command (sample_world [] (\<lambda>m. True)) 111
      (store (auto_command (sample_world [] (\<lambda>m. True)) 111 empty_store)))) = Some False \<and>
   auto_chat_id (store (auto_command (sample_world [] (\<lambda>m. True)) 111
      (store (auto_command (sample_world [] (\<lambda>m. True)) 111 empty_store)))) = Some 111 \<and>
   auto_chat_id (store (auto_command (sample_world [] (\<lambda>m. True)) 222
      (store (auto_command (sample_world [] (\<lambda>m. True)) 111
        (store (auto_command (sample_world [] (\<lambda>m. True)) 111 empty_store)))))) = Some 222 \<and>
   auto_chat_id (store (auto_command (sample_world [] (\<lambda>m. True)) 222
      (store (auto_command (sample_world [] (\<lambda>m. True)) 111
        (store (auto_command (sample_world [] (\<lambda>m. True)) 111 empty_store)))))) \<noteq> Some 111"
  by (simp add: auto_command_def send_message_def empty_store_def Let_def)

section \<open>The draft generator and the aggregation\<close>

text \<open>
  What the draft generator returns. For every posting, profile and answer of the
  text-generation service it returns a value. It returns the fixed error text when the
  client gets no response, when the status is not 200 (so on every non-success status), when
  the body is not JSON, and when the path \<open>choices\<close>, \<open>0\<close>, \<open>message\<close>, \<open>content\<close> cannot be
  followed in the body; in general, whenever anything raises inside its \<open>try\<close> block.
  Otherwise it returns the content found, whatever value that is.
\<close>

theorem generate_candidature_placeholder:
  "(post job profil = TransportFailure
      \<longrightarrow> generate_candidature post job profil = JStr GENERATION_ERROR) \<and>
   (\<forall>status body. post job profil = Response status body \<and> status \<noteq> 200
      \<longrightarrow> generate_candidature post job profil = JStr GENERATION_ERROR) \<and>
   (post job profil = Response 200 None
      \<longrightarrow> generate_candidature post job profil = JStr GENERATION_ERROR) \<and>
   (\<forall>data e. post job profil = Response 200 (Some data) \<and> content_of data = Inl e
      \<longrightarrow> generate_candidature post job profil = JStr GENERATION_ERROR) \<and>
   (\<forall>e. generate_candidature_try (post job profil) = Inl e
      \<longrightarrow> generate_candidature post job profil = JStr GENERATION_ERROR) \<and>
   (\<forall>data v. post job profil = Response 200 (Some data) \<and> content_of data = Inr v
      \<longrightarrow> generate_candidature post job profil = v)"
  by (simp add: generate_candidature_def generate_candidature_try_def)

theorem generate_candidature_placeholder_witness:
  "generate_candidature (\<lambda>job profil. TransportFailure) senior_job PROFIL_DEFAUT
     = JStr GENERATION_ERROR \<and>
   (503::nat) \<noteq> 200 \<and>
   generate_candidature (\<lambda>job profil. Response 503 None) senior_job PROFIL_DEFAUT
     = JStr GENERATION_ERROR \<and>
   generate_candidature (\<lambda>job profil. Response 200 None) senior_job PROFIL_DEFAUT
     = JStr GENERATION_ERROR \<and>
   content_of (JObj [(str ''choices'', JArr [])]) = Inl IndexError \<and>
   generate_candidature (\<lambda>job profil. Response 200 (Some (JObj [(str ''choices'', JArr [])])))
       senior_job PROFIL_DEFAUT
     = JStr GENERATION_ERROR \<and>
   generate_candidature (\<lambda>job profil. groq_answer) senior_job PROFIL_DEFAUT = JStr (str ''Hi'')"
proof -
  have h: "content_of (JObj [(str ''choices'', JArr [])]) = Inl IndexError"
    by code_simp
  have ok: "content_of (JObj [(str ''choices'',
       JArr [JObj [(str ''message'', JObj [(str ''content'', JStr (str ''Hi''))])]])])
     = Inr (JStr (str ''Hi''))"
    by code_simp
  have n: "(503::nat) \<noteq> 200" by simp
  show ?thesis
    using h n ok
      generate_candidature_placeholder [where post = "\<lambda>job profil. TransportFailure"
        and job = senior_job and profil = PROFIL_DEFAUT]
      generate_candidature_placeholder [where post = "\<lambda>job profil. Response 503 None"
        and job = senior_job and profil = PROFIL_DEFAUT]
      generate_candidature_placeholder [where post = "\<lambda>job profil. Response 200 None"
        and job = senior_job and profil = PROFIL_DEFAUT]
      generate_candidature_placeholder
        [where post = "\<lambda>job profil. Response 200 (Some (JObj [(str ''choices'', JArr [])]))"
        and job = senior_job and profil = PROFIL_DEFAUT]
      generate_candidature_placeholder [where post = "\<lambda>job profil. groq_answer"
        and job = senior_job and profil = PROFIL_DEFAUT]
    by (simp add: groq_answer_def)
qed

text \<open>
  C7. The draft generator does not return the fixed error text on every malformed
  response. The function is declared to return a string (\<open>-> str\<close>) and returns
  \<open>data["choices"][0]["message"]["content"]\<close> without looking at the value. On an answer
  with status 200 whose message has the content \<open>null\<close> the path can be followed, nothing
  raises, and the generator returns \<open>None\<close>, which is not the error text and not a string.
  The on-demand handler then formats the posting with that value (the f-string renders it
  as the text \<open>None\<close>), the message goes through, and the posting is marked as sent.
\<close>

theorem null_content_is_returned:
  "content_of (JObj [(str ''choices'',
       JArr [JObj [(str ''message'',
         JObj [(str ''role'', JStr (str ''assistant'')), (str ''content'', JNull)])]])])
     = Inr JNull \<and>
   generate_candidature (\<lambda>job profil. null_content_answer) (react_job (str ''7'')) PROFIL_DEFAUT
     = JNull \<and>
   JNull \<noteq> JStr GENERATION_ERROR \<and>
   sends (trace (missions_command plain_lib null_content_world 5 empty_store))
     = [Searching, Found 1 1, Formatted (react_job (str ''7'')) JNull, Finished 1] \<and>
   tracker (store (missions_command plain_lib null_content_world 5 empty_store))
     = {str ''rok-7''}"
  by code_simp

text \<open>
  C2. When the \<open>try\<close> block of one adapter raises, for whatever reason, \<open>fetch_jobs\<close>
  returns exactly the list of the other adapter. No response, a status outside 200-299
  and a body that is not JSON are such failures, for either adapter.
\<close>

theorem partial_source_failure:
  "(\<forall>e. fetch_remoteok_try lib a = Inl e \<longrightarrow> fetch_jobs lib a b = fetch_arbeitnow lib b) \<and>
   (\<forall>e. fetch_arbeitnow_try lib b = Inl e \<longrightarrow> fetch_jobs lib a b = fetch_remoteok lib a) \<and>
   ((a = TransportFailure \<or>
     (\<exists>status body. a = Response status body \<and> (status < 200 \<or> 299 < status \<or> body = None)))
      \<longrightarrow> fetch_jobs lib a b = fetch_arbeitnow lib b) \<and>
   ((b = TransportFailure \<or>
     (\<exists>status body. b = Response status body \<and> (status < 200 \<or> 299 < status \<or> body = None)))
      \<longrightarrow> fetch_jobs lib a b = fetch_remoteok lib a)"
  by (auto simp: fetch_jobs_def fetch_remoteok_def fetch_arbeitnow_def fetch_remoteok_try_def
      fetch_arbeitnow_try_def)

lemma fetch_senior: "fetch_arbeitnow plain_lib arbeitnow_answer = [senior_job]"
  by code_simp

theorem partial_source_failure_witness:
  "fetch_jobs plain_lib TransportFailure arbeitnow_answer = [senior_job] \<and>
   fetch_jobs plain_lib (Response 404 (Some (JArr []))) arbeitnow_answer = [senior_job] \<and>
   fetch_jobs plain_lib (Response 200 None) arbeitnow_answer = [senior_job] \<and>
   fetch_remoteok_try plain_lib (Response 200 (Some (JArr [JObj [], JNull]))) = Inl AttributeError \<and>
   fetch_jobs plain_lib (Response 200 (Some (JArr [JObj [], JNull]))) arbeitnow_answer
     = [senior_job] \<and>
   fetch_jobs plain_lib (remoteok_answer [str ''1'']) TransportFailure = [react_job (str ''1'')] \<and>
   fetch_arbeitnow_try plain_lib (Response 200 (Some (JArr []))) = Inl AttributeError \<and>
   fetch_jobs plain_lib (remoteok_answer [str ''1'']) (Response 200 (Some (JArr [])))
     = [react_job (str ''1'')]"
proof -
  have r: "fetch_remoteok plain_lib (remoteok_answer [str ''1'']) = [react_job (str ''1'')]"
    using fetch_react [of "[str ''1'']"]
    by (simp add: fetch_jobs_def fetch_arbeitnow_def fetch_arbeitnow_try_def)
  have h1: "fetch_remoteok_try plain_lib (Response 200 (Some (JArr [JObj [], JNull])))
      = Inl AttributeError"
    by code_simp
  have h2: "fetch_arbeitnow_try plain_lib (Response 200 (Some (JArr []))) = Inl AttributeError"
    by code_simp
  have h3: "(404::nat) < 200 \<or> (299::nat) < 404 \<or> Some (JArr []) = None"
    by simp
  have c1: "fetch_jobs plain_lib TransportFailure arbeitnow_answer
      = fetch_arbeitnow plain_lib arbeitnow_answer"
    using partial_source_failure [where lib = plain_lib and a = TransportFailure
        and b = arbeitnow_answer] by blast
  have c2: "fetch_jobs plain_lib (Response 404 (Some (JArr []))) arbeitnow_answer
      = fetch_arbeitnow plain_lib arbeitnow_answer"
    using partial_source_failure [where lib = plain_lib and a = "Response 404 (Some (JArr []))"
        and b = arbeitnow_answer] h3 by blast
  have c3: "fetch_jobs plain_lib (Response 200 None) arbeitnow_answer
      = fetch_arbeitnow plain_lib arbeitnow_answer"
    using partial_source_failure [where lib = plain_lib and a = "Response 200 None"
        and b = arbeitnow_answer] by blast
  have c4: "fetch_jobs plain_lib (Response 200 (Some (JArr [JObj [], JNull]))) arbeitnow_answer
      = fetch_arbeitnow plain_lib arbeitnow_answer"
    using partial_source_failure [where lib = plain_lib
        and a = "Response 200 (Some (JArr [JObj [], JNull]))" and b = arbeitnow_answer] h1
    by blast
  have c5: "fetch_jobs plain_lib (remoteok_answer [str ''1'']) TransportFailure
      = fetch_remoteok plain_lib (remoteok_answer [str ''1''])"
    using partial_source_failure [where lib = plain_lib and a = "remoteok_answer [str ''1'']"
        and b = TransportFailure] by blast
  have c6: "fetch_jobs plain_lib (remoteok_answer [str ''1'']) (Response 200 (Some (JArr [])))
      = fetch_remoteok plain_lib (remoteok_answer [str ''1''])"
    using partial_source_failure [where lib = plain_lib and a = "remoteok_answer [str ''1'']"
        and b = "Response 200 (Some (JArr []))"] h2 by blast
  show ?thesis
    using c1 c2 c3 c4 c5 c6 h1 h2 r fetch_senior by simp
qed

section \<open>The keyword filter\<close>

lemma startswith_iff: "startswith s p \<longleftrightarrow> (\<exists>q. s = p @ q)"
  by (induction s p rule: startswith.induct) auto

lemma str_in_iff: "str_in sub s \<longleftrightarrow> (\<exists>p q. s = p @ sub @ q)"
proof (induction s)
  case Nil
  show ?case by auto
next
  case (Cons c cs)
  show ?case
  proof
    assume "str_in sub (c # cs)"
    then consider "startswith (c # cs) sub" | "str_in sub cs" by auto
    then show "\<exists>p q. c # cs = p @ sub @ q"
    proof cases
      case 1
      then obtain q where "c # cs = sub @ q" using startswith_iff by blast
      then have "c # cs = [] @ sub @ q" by simp
      then show ?thesis by blast
    next
      case 2
      then obtain p q where "cs = p @ sub @ q" using Cons.IH by blast
      then have "c # cs = (c # p) @ sub @ q" by simp
      then show ?thesis by blast
    qed
  next
    assume "\<exists>p q. c # cs = p @ sub @ q"
    then obtain p q where pq: "c # cs = p @ sub @ q" by blast
    show "str_in sub (c # cs)"
    proof (cases p)
      case Nil
      then have "startswith (c # cs) sub" using pq startswith_iff by auto
      then show ?thesis by simp
    next
      case (Cons a p')
      then have "cs = p' @ sub @ q" using pq by simp
      then have "str_in sub cs" using Cons.IH by blast
      then show ?thesis by simp
    qed
  qed
qed

lemma any_keyword_iff:
  "any_keyword s \<longleftrightarrow> (\<exists>kw \<in> set KEYWORDS. \<exists>p q. s = p @ kw @ q)"
  by (simp add: any_keyword_def list_ex_iff str_in_iff)

lemma keywords_lower: "\<forall>kw \<in> set KEYWORDS. lower lib kw = kw"
  by (simp add: KEYWORDS_def lower_def lower_latin1_def str_def)

lemma strings_of_strs: "strings_of (map JStr ss) = Inr ss"
  by (induction ss) (simp_all add: and_then_def)

lemma str_join_strs: "str_join sep (py_or (JArr (map JStr ss)) (JArr [])) = Inr (join sep ss)"
  by (cases ss) (simp_all add: str_join_def py_or_def py_iter_def and_then_def strings_of_strs)

lemma method_lower_str: "method_lower lib (py_or (JStr t) (JStr [])) = Inr (lower lib t)"
  by (cases t) (simp_all add: method_lower_def py_or_def)

lemma py_str_or_str: "py_str lib (py_or (JStr c) (JStr [])) = c"
  by (cases c) (simp_all add: py_or_def py_str_def)

lemma arbeitnow_text_of_fields:
  "arbeitnow_search_text lib
     [(str ''title'', JStr t), (str ''description'', JStr ds), (str ''tags'', JArr (map JStr tgs))]
   = Inr (lower lib t @ [32] @ lower lib ds @ [32] @ lower lib (join [32] tgs))"
  by (simp add: arbeitnow_search_text_def get_def str_def method_lower_str str_join_strs
      and_then_def)

lemma remoteok_text_of_fields:
  "remoteok_search_text lib
     [(str ''position'', JStr t), (str ''tags'', JArr (map JStr tgs)), (str ''company'', JStr c)]
   = Inr (lower lib (lower lib t @ [32] @ lower lib (join [32] tgs) @ [32] @ c))"
  by (simp add: remoteok_search_text_def get_def str_def method_lower_str str_join_strs
      and_then_def py_str_or_str)

lemma item_kept_iff:
  "remoteok_search_text lib d = Inr s \<Longrightarrow> (remoteok_item lib (JObj d) = Inr []) \<longleftrightarrow> \<not> any_keyword s"
  "arbeitnow_search_text lib d = Inr s \<Longrightarrow> (arbeitnow_item lib (JObj d) = Inr []) \<longleftrightarrow> \<not> any_keyword s"
  by (auto simp: remoteok_item_def arbeitnow_item_def and_then_def split: sum.splits)

lemma ex_senior:
  "arbeitnow_item lib (JObj [(str ''title'', JStr (str ''Senior React Developer'')),
       (str ''description'', JStr []), (str ''tags'', JArr [])])
   = Inr [\<lparr> job_id = str ''abn-'', title = JStr (str ''Senior React Developer''),
             company = JStr (str ''N/A''), url = JStr [], description = [],
             source = str ''Arbeitnow'', date = JStr [] \<rparr>]"
  by code_simp

lemma ex_warehouse:
  "arbeitnow_item lib (JObj [(str ''title'', JStr (str ''Warehouse Associate'')),
       (str ''description'', JStr []), (str ''tags'', JArr [])]) = Inr []"
  by code_simp


lemma ex_senior_rok:
  "remoteok_item lib (JObj [(str ''position'', JStr (str ''Senior React Developer'')),
       (str ''tags'', JArr []), (str ''description'', JStr [])])
   = Inr [\<lparr> job_id = str ''rok-'', title = JStr (str ''Senior React Developer''),
             company = JStr (str ''N/A''), url = JStr (str ''https://remoteok.com/remote-jobs/''),
             description = [], source = str ''RemoteOK'', date = JStr [] \<rparr>]"
  by code_simp

lemma ex_warehouse_rok:
  "remoteok_item lib (JObj [(str ''position'', JStr (str ''Warehouse Associate'')),
       (str ''tags'', JArr []), (str ''description'', JStr [])]) = Inr []"
  by code_simp

text \<open>
  C5. The keyword test holds of a text exactly when some keyword of the list occurs in it
  as a contiguous part, and every keyword is its own lower-case form. Both adapters apply
  the test to a lower-cased text: for an item whose fields are strings, the one of Arbeitnow
  to the lower-cased title, description and joined tags, the one of RemoteOK to the
  lower-cased title, joined tags and company, so the case of the letters of the posting
  does not matter; the item appends nothing exactly when the test fails. An item with the
  title "Senior React Developer", no tags and an empty description appends a posting in
  both adapters; one with the title "Warehouse Associate" appends none.
\<close>

theorem keyword_filter:
  "(any_keyword s \<longleftrightarrow> (\<exists>kw \<in> set KEYWORDS. \<exists>p q. s = p @ kw @ q)) \<and>
   (\<forall>kw \<in> set KEYWORDS. lower lib kw = kw) \<and>
   (arbeitnow_item lib (JObj [(str ''title'', JStr t), (str ''description'', JStr ds),
        (str ''tags'', JArr (map JStr tgs))]) = Inr []
      \<longleftrightarrow> \<not> any_keyword (lower lib t @ [32] @ lower lib ds @ [32] @ lower lib (join [32] tgs))) \<and>
   (remoteok_item lib (JObj [(str ''position'', JStr t), (str ''tags'', JArr (map JStr tgs)),
        (str ''company'', JStr c)]) = Inr []
      \<longleftrightarrow> \<not> any_keyword (lower lib (lower lib t @ [32] @ lower lib (join [32] tgs) @ [32] @ c))) \<and>
   (\<forall>d x. arbeitnow_search_text lib d = Inr x
      \<longrightarrow> (arbeitnow_item lib (JObj d) = Inr [] \<longleftrightarrow> \<not> any_keyword x)) \<and>
   (\<forall>d x. remoteok_search_text lib d = Inr x
      \<longrightarrow> (remoteok_item lib (JObj d) = Inr [] \<longleftrightarrow> \<not> any_keyword x)) \<and>
   arbeitnow_item lib (JObj [(str ''title'', JStr (str ''Senior React Developer'')),
       (str ''description'', JStr []), (str ''tags'', JArr [])])
     = Inr [\<lparr> job_id = str ''abn-'', title = JStr (str ''Senior React Developer''),
             company = JStr (str ''N/A''), url = JStr [], description = [],
             source = str ''Arbeitnow'', date = JStr [] \<rparr>] \<and>
   arbeitnow_item lib (JObj [(str ''title'', JStr (str ''Warehouse Associate'')),
       (str ''description'', JStr []), (str ''tags'', JArr [])]) = Inr [] \<and>
   remoteok_item lib (JObj [(str ''position'', JStr (str ''Senior React Developer'')),
       (str ''tags'', JArr []), (str ''description'', JStr [])])
     = Inr [\<lparr> job_id = str ''rok-'', title = JStr (str ''Senior React Developer''),
             company = JStr (str ''N/A''), url = JStr (str ''https://remoteok.com/remote-jobs/''),
             description = [], source = str ''RemoteOK'', date = JStr [] \<rparr>] \<and>
   remoteok_item lib (JObj [(str ''position'', JStr (str ''Warehouse Associate'')),
       (str ''tags'', JArr []), (str ''description'', JStr [])]) = Inr []"
proof (intro conjI)
  show "any_keyword s \<longleftrightarrow> (\<exists>kw \<in> set KEYWORDS. \<exists>p q. s = p @ kw @ q)"
    by (rule any_keyword_iff)
  show "\<forall>kw \<in> set KEYWORDS. lower lib kw = kw"
    by (rule keywords_lower)
  show "arbeitnow_item lib (JObj [(str ''title'', JStr t), (str ''description'', JStr ds),
        (str ''tags'', JArr (map JStr tgs))]) = Inr []
      \<longleftrightarrow> \<not> any_keyword (lower lib t @ [32] @ lower lib ds @ [32] @ lower lib (join [32] tgs))"
    using item_kept_iff(2) [OF arbeitnow_text_of_fields] .
  show "remoteok_item lib (JObj [(str ''position'', JStr t), (str ''tags'', JArr (map JStr tgs)),
        (str ''company'', JStr c)]) = Inr []
      \<longleftrightarrow> \<not> any_keyword (lower lib (lower lib t @ [32] @ lower lib (join [32] tgs) @ [32] @ c))"
    using item_kept_iff(1) [OF remoteok_text_of_fields] .
  show "\<forall>d x. arbeitnow_search_text lib d = Inr x
      \<longrightarrow> (arbeitnow_item lib (JObj d) = Inr [] \<longleftrightarrow> \<not> any_keyword x)"
    using item_kept_iff(2) by blast
  show "\<forall>d x. remoteok_search_text lib d = Inr x
      \<longrightarrow> (remoteok_item lib (JObj d) = Inr [] \<longleftrightarrow> \<not> any_keyword x)"
    using item_kept_iff(1) by blast
qed (rule ex_senior ex_warehouse ex_senior_rok ex_warehouse_rok)+

theorem keyword_filter_witness:
  "str ''react'' \<in> set KEYWORDS \<and>
   lower plain_lib (str ''react'') = str ''react'' \<and>
   str ''SENIOR REACT DEV'' = str ''SENIOR '' @ str ''REACT'' @ str '' DEV'' \<and>
   \<not> any_keyword (str ''SENIOR REACT DEV'') \<and>
   lower plain_lib (str ''SENIOR REACT DEV'') = str ''senior '' @ str ''react'' @ str '' dev'' \<and>
   any_keyword (lower plain_lib (str ''SENIOR REACT DEV'')) \<and>
   remoteok_search_text plain_lib
       [(str ''position'', JStr (str ''React dev'')), (str ''id'', JStr (str ''1''))]
     = Inr (str ''react dev  '') \<and>
   any_keyword (str ''react dev  '') \<and>
   remoteok_item plain_lib (JObj
       [(str ''position'', JStr (str ''React dev'')), (str ''id'', JStr (str ''1''))]) \<noteq> Inr []"
proof -
  note kf = keyword_filter [where lib = plain_lib]
  have k: "str ''react'' \<in> set KEYWORDS"
    by (simp add: KEYWORDS_def)
  have l: "lower plain_lib (str ''react'') = str ''react''"
    using kf k by blast
  have up: "str ''SENIOR REACT DEV'' = str ''SENIOR '' @ str ''REACT'' @ str '' DEV''"
    by (simp add: str_def)
  have nup: "\<not> any_keyword (str ''SENIOR REACT DEV'')"
    by code_simp
  have lo: "lower plain_lib (str ''SENIOR REACT DEV'') = str ''senior '' @ str ''react'' @ str '' dev''"
    by code_simp
  have a1: "any_keyword (lower plain_lib (str ''SENIOR REACT DEV''))"
    using keyword_filter [where s = "lower plain_lib (str ''SENIOR REACT DEV'')"] k lo by blast
  have d: "str ''react dev  '' = [] @ str ''react'' @ str '' dev  ''"
    by (simp add: str_def)
  have a2: "any_keyword (str ''react dev  '')"
    using keyword_filter [where s = "str ''react dev  ''"] k d by blast
  have r: "remoteok_item plain_lib (JObj
       [(str ''position'', JStr (str ''React dev'')), (str ''id'', JStr (str ''1''))]) \<noteq> Inr []"
    using kf react_search_text [of "str ''1''"] a2 by blast
  show ?thesis
    using k l up nup lo a1 a2 r react_search_text [of "str ''1''"] by simp
qed

section \<open>Posting ids\<close>

lemma collect_member:
  "collect f xs = Inr ys \<Longrightarrow> y \<in> set ys \<Longrightarrow> \<exists>x \<in> set xs. \<exists>zs. f x = Inr zs \<and> y \<in> set zs"
proof (induction xs arbitrary: ys)
  case Nil
  then show ?case by simp
next
  case (Cons x xs)
  from Cons.prems(1) obtain zs rest where
      fx: "f x = Inr zs" and cr: "collect f xs = Inr rest" and ys: "ys = zs @ rest"
    by (auto simp: and_then_def split: sum.splits)
  from Cons.prems(2) ys consider "y \<in> set zs" | "y \<in> set rest" by auto
  then show ?case
  proof cases
    case 1
    with fx show ?thesis by auto
  next
    case 2
    with Cons.IH [OF cr] show ?thesis by auto
  qed
qed

lemma remoteok_job_id:
  "remoteok_job lib d = Inr j \<Longrightarrow> job_id j = str ''rok-'' @ py_str lib (get d (str ''id'') (JStr []))"
  by (auto simp: remoteok_job_def and_then_def split: sum.splits)

lemma arbeitnow_job_id:
  "arbeitnow_job lib d = Inr j \<Longrightarrow> job_id j = str ''abn-'' @ py_str lib (get d (str ''slug'') (JStr []))"
  by (auto simp: arbeitnow_job_def and_then_def split: sum.splits)

lemma remoteok_item_job:
  "remoteok_item lib item = Inr zs \<Longrightarrow> j \<in> set zs \<Longrightarrow> \<exists>d. item = JObj d \<and> remoteok_job lib d = Inr j"
  by (auto simp: remoteok_item_def and_then_def split: json.splits sum.splits if_splits)

lemma arbeitnow_item_job:
  "arbeitnow_item lib item = Inr zs \<Longrightarrow> j \<in> set zs \<Longrightarrow> \<exists>d. item = JObj d \<and> arbeitnow_job lib d = Inr j"
  by (auto simp: arbeitnow_item_def and_then_def split: json.splits sum.splits if_splits)

lemma fetch_remoteok_try_collect:
  "fetch_remoteok_try lib a = Inr ys \<Longrightarrow> \<exists>items. collect (remoteok_item lib) items = Inr ys"
  by (auto simp: fetch_remoteok_try_def and_then_def
      split: sum.splits http_result.splits if_splits option.splits)

lemma fetch_arbeitnow_try_collect:
  "fetch_arbeitnow_try lib b = Inr ys \<Longrightarrow> \<exists>items. collect (arbeitnow_item lib) items = Inr ys"
  by (auto simp: fetch_arbeitnow_try_def and_then_def
      split: sum.splits http_result.splits if_splits option.splits json.splits)

lemma fetch_remoteok_from_item:
  assumes "j \<in> set (fetch_remoteok lib a)"
  shows "\<exists>d. remoteok_job lib d = Inr j"
proof (cases "fetch_remoteok_try lib a")
  case (Inl e)
  with assms show ?thesis by (simp add: fetch_remoteok_def)
next
  case (Inr ys)
  then have j: "j \<in> set ys" using assms by (simp add: fetch_remoteok_def)
  from fetch_remoteok_try_collect [OF Inr] obtain items where
      "collect (remoteok_item lib) items = Inr ys" by blast
  from collect_member [OF this j] obtain item zs where
      "remoteok_item lib item = Inr zs" "j \<in> set zs" by blast
  then show ?thesis using remoteok_item_job by blast
qed

lemma fetch_arbeitnow_from_item:
  assumes "j \<in> set (fetch_arbeitnow lib b)"
  shows "\<exists>d. arbeitnow_job lib d = Inr j"
proof (cases "fetch_arbeitnow_try lib b")
  case (Inl e)
  with assms show ?thesis by (simp add: fetch_arbeitnow_def)
next
  case (Inr ys)
  then have j: "j \<in> set ys" using assms by (simp add: fetch_arbeitnow_def)
  from fetch_arbeitnow_try_collect [OF Inr] obtain items where
      "collect (arbeitnow_item lib) items = Inr ys" by blast
  from collect_member [OF this j] obtain item zs where
      "arbeitnow_item lib item = Inr zs" "j \<in> set zs" by blast
  then show ?thesis using arbeitnow_item_job by blast
qed

lemma prefixes_differ: "str ''rok-'' @ m \<noteq> str ''abn-'' @ n"
  by (simp add: str_def)


text \<open>
  C8, amended. Every posting id has the form of the prefix of its adapter, \<open>rok-\<close> or
  \<open>abn-\<close>, followed by the text of the native id of its item (the value under \<open>id\<close> or
  \<open>slug\<close>, the empty text when the item has none). So a posting of the RemoteOK adapter
  and a posting of the Arbeitnow adapter never have the same id, and two postings of one
  adapter have the same id exactly when the texts of their native ids are the same.
\<close>

theorem posting_ids:
  "(\<forall>j \<in> set (fetch_remoteok lib a).
      \<exists>d. remoteok_job lib d = Inr j \<and>
          job_id j = str ''rok-'' @ py_str lib (get d (str ''id'') (JStr []))) \<and>
   (\<forall>k \<in> set (fetch_arbeitnow lib b).
      \<exists>d. arbeitnow_job lib d = Inr k \<and>
          job_id k = str ''abn-'' @ py_str lib (get d (str ''slug'') (JStr []))) \<and>
   (\<forall>j \<in> set (fetch_remoteok lib a). \<forall>k \<in> set (fetch_arbeitnow lib b). job_id j \<noteq> job_id k) \<and>
   (\<forall>d d' j j'. remoteok_job lib d = Inr j \<and> remoteok_job lib d' = Inr j'
      \<longrightarrow> (job_id j = job_id j' \<longleftrightarrow>
           py_str lib (get d (str ''id'') (JStr [])) = py_str lib (get d' (str ''id'') (JStr [])))) \<and>
   (\<forall>d d' k k'. arbeitnow_job lib d = Inr k \<and> arbeitnow_job lib d' = Inr k'
      \<longrightarrow> (job_id k = job_id k' \<longleftrightarrow>
           py_str lib (get d (str ''slug'') (JStr [])) = py_str lib (get d' (str ''slug'') (JStr []))))"
proof (intro conjI)
  show r: "\<forall>j \<in> set (fetch_remoteok lib a).
      \<exists>d. remoteok_job lib d = Inr j \<and>
          job_id j = str ''rok-'' @ py_str lib (get d (str ''id'') (JStr []))"
    using fetch_remoteok_from_item remoteok_job_id by blast
  show n: "\<forall>k \<in> set (fetch_arbeitnow lib b).
      \<exists>d. arbeitnow_job lib d = Inr k \<and>
          job_id k = str ''abn-'' @ py_str lib (get d (str ''slug'') (JStr []))"
    using fetch_arbeitnow_from_item arbeitnow_job_id by blast
  show "\<forall>j \<in> set (fetch_remoteok lib a). \<forall>k \<in> set (fetch_arbeitnow lib b). job_id j \<noteq> job_id k"
  proof (intro ballI)
    fix j k
    assume "j \<in> set (fetch_remoteok lib a)" and "k \<in> set (fetch_arbeitnow lib b)"
    then obtain m n' where "job_id j = str ''rok-'' @ m" "job_id k = str ''abn-'' @ n'"
      using r n by blast
    then show "job_id j \<noteq> job_id k" using prefixes_differ by simp
  qed
  show "\<forall>d d' j j'. remoteok_job lib d = Inr j \<and> remoteok_job lib d' = Inr j'
      \<longrightarrow> (job_id j = job_id j' \<longleftrightarrow>
           py_str lib (get d (str ''id'') (JStr [])) = py_str lib (get d' (str ''id'') (JStr [])))"
    by (auto dest!: remoteok_job_id)
  show "\<forall>d d' k k'. arbeitnow_job lib d = Inr k \<and> arbeitnow_job lib d' = Inr k'
      \<longrightarrow> (job_id k = job_id k' \<longleftrightarrow>
           py_str lib (get d (str ''slug'') (JStr [])) = py_str lib (get d' (str ''slug'') (JStr [])))"
    by (auto dest!: arbeitnow_job_id)
qed

text \<open>
  Two items of one answer of RemoteOK that carry no \<open>id\<close>: two different postings, both
  with the id \<open>rok-\<close>.
\<close>

theorem same_id_without_native_id:
  "fetch_remoteok plain_lib (Response 200 (Some (JArr
      [JObj [], JObj [(str ''position'', JStr (str ''React dev''))],
                JObj [(str ''position'', JStr (str ''Vue dev''))]])))
   = [\<lparr> job_id = str ''rok-'', title = JStr (str ''React dev''), company = JStr (str ''N/A''),
         url = JStr (str ''https://remoteok.com/remote-jobs/''), description = [],
         source = str ''RemoteOK'', date = JStr [] \<rparr>,
      \<lparr> job_id = str ''rok-'', title = JStr (str ''Vue dev''), company = JStr (str ''N/A''),
         url = JStr (str ''https://remoteok.com/remote-jobs/''), description = [],
         source = str ''RemoteOK'', date = JStr [] \<rparr>] \<and>
   JStr (str ''React dev'') \<noteq> JStr (str ''Vue dev'') \<and>
   \<not> distinct (map job_id (fetch_jobs plain_lib (Response 200 (Some (JArr
      [JObj [], JObj [(str ''position'', JStr (str ''React dev''))],
                JObj [(str ''position'', JStr (str ''Vue dev''))]]))) TransportFailure))"
  by code_simp

theorem posting_ids_witness:
  "react_job (str ''1'') \<in> set (fetch_remoteok plain_lib (remoteok_answer [str ''1''])) \<and>
   senior_job \<in> set (fetch_arbeitnow plain_lib arbeitnow_answer) \<and>
   job_id (react_job (str ''1'')) \<noteq> job_id senior_job \<and>
   remoteok_job plain_lib [(str ''position'', JStr (str ''React dev'')), (str ''id'', JStr (str ''1''))]
     = Inr (react_job (str ''1'')) \<and>
   remoteok_job plain_lib [(str ''position'', JStr (str ''React dev'')), (str ''id'', JInt 1)]
     = Inr (react_job (str ''1'')) \<and>
   py_str plain_lib (get [(str ''position'', JStr (str ''React dev'')), (str ''id'', JStr (str ''1''))]
       (str ''id'') (JStr []))
     = py_str plain_lib (get [(str ''position'', JStr (str ''React dev'')), (str ''id'', JInt 1)]
       (str ''id'') (JStr []))"
proof -
  have h1: "react_job (str ''1'') \<in> set (fetch_remoteok plain_lib (remoteok_answer [str ''1'']))"
    using fetch_react [of "[str ''1'']"]
    by (simp add: fetch_jobs_def fetch_arbeitnow_def fetch_arbeitnow_try_def)
  have h2: "senior_job \<in> set (fetch_arbeitnow plain_lib arbeitnow_answer)"
    by (simp add: fetch_senior)
  have h3: "remoteok_job plain_lib
      [(str ''position'', JStr (str ''React dev'')), (str ''id'', JStr (str ''1''))]
     = Inr (react_job (str ''1''))"
    by code_simp
  have h4: "remoteok_job plain_lib
      [(str ''position'', JStr (str ''React dev'')), (str ''id'', JInt 1)]
     = Inr (react_job (str ''1''))"
    by code_simp
  note p = posting_ids [where lib = plain_lib and a = "remoteok_answer [str ''1'']"
      and b = arbeitnow_answer]
  have c1: "job_id (react_job (str ''1'')) \<noteq> job_id senior_job"
    using p h1 h2 by blast
  have c2: "py_str plain_lib
       (get [(str ''position'', JStr (str ''React dev'')), (str ''id'', JStr (str ''1''))]
       (str ''id'') (JStr []))
     = py_str plain_lib (get [(str ''position'', JStr (str ''React dev'')), (str ''id'', JInt 1)]
       (str ''id'') (JStr []))"
    using p h3 h4 by blast
  show ?thesis using h1 h2 h3 h4 c1 c2 by simp
qed

section \<open>Cleaning a description\<close>

lemma isspace_32: "isspace 32" and not_isspace_60: "\<not> isspace 60" and not_isspace_62: "\<not> isspace 62"
  by (simp_all add: isspace_def)

subsection \<open>Whitespace\<close>

lemma spaced_dropWhile: "spaced b (dropWhile isspace s) \<Longrightarrow> spaced True (dropWhile isspace s)"
proof (cases "dropWhile isspace s")
  case Nil
  show ?thesis unfolding Nil by simp
next
  case (Cons c cs)
  assume s: "spaced b (dropWhile isspace s)"
  have "\<not> isspace c" using Cons hd_dropWhile [of isspace s] by auto
  then show ?thesis using s Cons by simp
qed

lemma spaced_collapse_ws: "spaced False (collapse_ws s)"
proof (induction s rule: collapse_ws.induct)
  case 1
  show ?case by simp
next
  case (2 c cs)
  show ?case
  proof (cases "isspace c")
    case True
    then have ih: "spaced False (collapse_ws (dropWhile isspace cs))" using 2 by simp
    have "spaced True (collapse_ws (dropWhile isspace cs))"
    proof (cases "dropWhile isspace cs")
      case Nil
      show ?thesis unfolding Nil by simp
    next
      case (Cons d ds)
      then have nd: "\<not> isspace d" using hd_dropWhile [of isspace cs] by auto
      then have "collapse_ws (dropWhile isspace cs) = d # collapse_ws ds" using Cons by simp
      then show ?thesis using ih nd by simp
    qed
    then show ?thesis using True by (simp add: isspace_32)
  next
    case False
    then show ?thesis using 2 by simp
  qed
qed

lemma spaced_prefix: "spaced b (xs @ ys) \<Longrightarrow> spaced b xs"
  by (induction xs arbitrary: b) (auto split: if_splits)

lemma spaced_suffix: "spaced b (xs @ ys) \<Longrightarrow> spaced False ys"
proof (induction xs arbitrary: b)
  case Nil
  then show ?case by (cases ys) (auto split: if_splits)
next
  case (Cons x xs)
  then show ?case by (auto split: if_splits)
qed

lemma spaced_only_spaces: "spaced b s \<Longrightarrow> c \<in> set s \<Longrightarrow> isspace c \<Longrightarrow> c = 32"
  by (induction s arbitrary: b) (auto split: if_splits)

lemma spaced_no_pair: "spaced b (p @ [x, y] @ q) \<Longrightarrow> \<not> (isspace x \<and> isspace y)"
  by (induction p arbitrary: b) (auto split: if_splits)

lemma spaced_hd: "spaced True s \<Longrightarrow> s = [] \<or> \<not> isspace (hd s)"
  by (cases s) (auto split: if_splits)

lemma strip_prefix_suffix:
  "dropWhile isspace s = strip s @ rev (takeWhile isspace (rev (dropWhile isspace s)))"
  unfolding strip_def by (metis rev_append rev_rev_ident takeWhile_dropWhile_id)

lemma spaced_strip: "spaced False s \<Longrightarrow> spaced True (strip s)"
proof -
  assume s: "spaced False s"
  have "spaced False (dropWhile isspace s)"
    using s spaced_suffix [of False "takeWhile isspace s" "dropWhile isspace s"] by simp
  then have d: "spaced True (dropWhile isspace s)" by (rule spaced_dropWhile)
  show ?thesis
    using d strip_prefix_suffix [of s]
      spaced_prefix [of True "strip s" "rev (takeWhile isspace (rev (dropWhile isspace s)))"]
    by simp
qed

lemma strip_last: "strip s = [] \<or> \<not> isspace (last (strip s))"
proof (cases "strip s = []")
  case True
  then show ?thesis by simp
next
  case False
  have "rev (strip s) = dropWhile isspace (rev (dropWhile isspace s))"
    by (simp add: strip_def)
  moreover have "rev (strip s) \<noteq> []" using False by simp
  ultimately have "\<not> isspace (hd (rev (strip s)))"
    using hd_dropWhile [of isspace "rev (dropWhile isspace s)"] by simp
  then show ?thesis using False by (simp add: hd_rev)
qed

subsection \<open>Tags\<close>

lemma has_tag_Cons:
  "has_tag (c # ys) \<longleftrightarrow>
     (c = 60 \<and> (\<exists>t q. ys = t @ [62] @ q \<and> t \<noteq> [] \<and> 62 \<notin> set t)) \<or> has_tag ys"
proof
  assume "has_tag (c # ys)"
  then obtain p t q where pq: "c # ys = p @ [60] @ t @ [62] @ q" "t \<noteq> []" "62 \<notin> set t"
    unfolding has_tag_def by blast
  show "(c = 60 \<and> (\<exists>t q. ys = t @ [62] @ q \<and> t \<noteq> [] \<and> 62 \<notin> set t)) \<or> has_tag ys"
  proof (cases p)
    case Nil
    then have "c = 60" "ys = t @ [62] @ q" using pq(1) by simp_all
    then show ?thesis using pq(2,3) by blast
  next
    case (Cons a p')
    then have "ys = p' @ [60] @ t @ [62] @ q" using pq(1) by simp
    then have "has_tag ys" unfolding has_tag_def using pq(2,3) by blast
    then show ?thesis by simp
  qed
next
  assume "(c = 60 \<and> (\<exists>t q. ys = t @ [62] @ q \<and> t \<noteq> [] \<and> 62 \<notin> set t)) \<or> has_tag ys"
  then show "has_tag (c # ys)"
  proof
    assume "c = 60 \<and> (\<exists>t q. ys = t @ [62] @ q \<and> t \<noteq> [] \<and> 62 \<notin> set t)"
    then obtain t q where "c # ys = [] @ [60] @ t @ [62] @ q" "t \<noteq> []" "62 \<notin> set t"
      by auto
    then show ?thesis unfolding has_tag_def by blast
  next
    assume "has_tag ys"
    then obtain p t q where "ys = p @ [60] @ t @ [62] @ q" "t \<noteq> []" "62 \<notin> set t"
      unfolding has_tag_def by blast
    then have "c # ys = (c # p) @ [60] @ t @ [62] @ q" by simp
    then show ?thesis unfolding has_tag_def using \<open>t \<noteq> []\<close> \<open>62 \<notin> set t\<close> by blast
  qed
qed

lemma has_tag_Nil: "\<not> has_tag []"
  by (simp add: has_tag_def)

lemma has_tag_embedded: "has_tag x \<Longrightarrow> has_tag (u @ x @ v)"
proof -
  assume "has_tag x"
  then obtain p t q where "x = p @ [60] @ t @ [62] @ q" "t \<noteq> []" "62 \<notin> set t"
    unfolding has_tag_def by blast
  then have "u @ x @ v = (u @ p) @ [60] @ t @ [62] @ (q @ v)" by simp
  then show ?thesis unfolding has_tag_def using \<open>t \<noteq> []\<close> \<open>62 \<notin> set t\<close> by blast
qed

lemma strip_tags_without_gt: "62 \<notin> set cs \<Longrightarrow> strip_tags cs = cs"
proof (induction cs)
  case Nil
  show ?case by simp
next
  case (Cons c cs)
  then have "dropWhile (\<lambda>x. x \<noteq> 62) cs = []" by (auto simp: dropWhile_eq_Nil_conv)
  then show ?case using Cons by simp
qed

lemma takeWhile_to_gt: "62 \<notin> set t \<Longrightarrow> takeWhile (\<lambda>x. x \<noteq> 62) (t @ [62] @ q) = (t :: nat list)"
  by (induction t) auto

lemma first_gt_unique:
  fixes t t' q q' :: "nat list"
  assumes "t @ [62] @ q = t' @ [62] @ q'" and "62 \<notin> set t" and "62 \<notin> set t'"
  shows "t = t'"
proof -
  have "takeWhile (\<lambda>x. x \<noteq> 62) (t @ [62] @ q) = t"
    using assms(2) by (rule takeWhile_to_gt)
  moreover have "takeWhile (\<lambda>x. x \<noteq> 62) (t' @ [62] @ q') = t'"
    using assms(3) by (rule takeWhile_to_gt)
  ultimately show ?thesis using assms(1) by simp
qed

lemma strip_tags_no_tag: "\<not> has_tag (strip_tags s)"
proof (induction s rule: strip_tags.induct)
  case 1
  show ?case by (simp add: has_tag_Nil)
next
  case (2 c cs)
  let ?m = "c = 60 \<and> takeWhile (\<lambda>x. x \<noteq> 62) cs \<noteq> [] \<and> dropWhile (\<lambda>x. x \<noteq> 62) cs \<noteq> []"
  show ?case
  proof (cases ?m)
    case True
    then have "\<not> has_tag (strip_tags (tl (dropWhile (\<lambda>x. x \<noteq> 62) cs)))" using 2 by simp
    then show ?thesis using True by (simp add: has_tag_Cons)
  next
    case False
    then have ih: "\<not> has_tag (strip_tags cs)" using 2 by simp
    have eq: "strip_tags (c # cs) = c # strip_tags cs" using False by simp
    have "\<not> (c = 60 \<and> (\<exists>t q. strip_tags cs = t @ [62] @ q \<and> t \<noteq> [] \<and> 62 \<notin> set t))"
    proof
      assume a: "c = 60 \<and> (\<exists>t q. strip_tags cs = t @ [62] @ q \<and> t \<noteq> [] \<and> 62 \<notin> set t)"
      then obtain t q where tq: "strip_tags cs = t @ [62] @ q" "t \<noteq> []" "62 \<notin> set t" by blast
      from a False consider "takeWhile (\<lambda>x. x \<noteq> 62) cs = []" "dropWhile (\<lambda>x. x \<noteq> 62) cs \<noteq> []"
        | "dropWhile (\<lambda>x. x \<noteq> 62) cs = []" by blast
      then show False
      proof cases
        case 1
        then obtain cs' where cs: "cs = 62 # cs'"
          by (cases cs) (auto split: if_splits)
        then have "strip_tags cs = [] @ [62] @ strip_tags cs'" by simp
        then have "t = []" using tq(1,3) first_gt_unique [of t q "[]" "strip_tags cs'"] by simp
        then show False using tq(2) by simp
      next
        case 2
        then have n: "62 \<notin> set cs" by (auto simp: dropWhile_eq_Nil_conv)
        then have "strip_tags cs = cs" by (rule strip_tags_without_gt)
        then have "cs = t @ [62] @ q" using tq(1) by simp
        then have "62 \<in> set cs" by simp
        then show False using n by simp
      qed
    qed
    then show ?thesis using ih eq by (simp add: has_tag_Cons)
  qed
qed

lemma set_strip_tags: "set (strip_tags s) \<subseteq> insert 32 (set s)"
proof (induction s rule: strip_tags.induct)
  case 1
  show ?case by simp
next
  case (2 c cs)
  show ?case
  proof (cases "c = 60 \<and> takeWhile (\<lambda>x. x \<noteq> 62) cs \<noteq> [] \<and> dropWhile (\<lambda>x. x \<noteq> 62) cs \<noteq> []")
    case True
    then have "set (strip_tags (tl (dropWhile (\<lambda>x. x \<noteq> 62) cs)))
        \<subseteq> insert 32 (set (tl (dropWhile (\<lambda>x. x \<noteq> 62) cs)))" using 2 by simp
    moreover have "set (tl (dropWhile (\<lambda>x. x \<noteq> 62) cs)) \<subseteq> set cs"
      by (metis list.sel(2) list.set_sel(2) set_dropWhileD subsetI)
    ultimately show ?thesis using True by auto
  next
    case False
    then show ?thesis using 2 by auto
  qed
qed

lemma collapse_ws_nonspace: "\<not> isspace g \<Longrightarrow> g \<in> set a \<Longrightarrow> g \<in> set (collapse_ws a)"
proof (induction a rule: collapse_ws.induct)
  case 1
  then show ?case by simp
next
  case (2 c cs)
  show ?case
  proof (cases "isspace c")
    case True
    then have "g \<noteq> c" using 2(3) by auto
    then have "g \<in> set cs" using 2(4) by simp
    moreover have "set cs = set (takeWhile isspace cs) \<union> set (dropWhile isspace cs)"
      by (metis set_append takeWhile_dropWhile_id)
    ultimately have "g \<in> set (dropWhile isspace cs)"
      using 2(3) by (auto dest: set_takeWhileD)
    then show ?thesis using 2 True by simp
  next
    case False
    then show ?thesis using 2 by auto
  qed
qed

lemma collapse_ws_split:
  "\<not> isspace g \<Longrightarrow> collapse_ws x = p @ g # r
    \<Longrightarrow> \<exists>a b. x = a @ g # b \<and> collapse_ws a = p \<and> collapse_ws b = r"
proof (induction x arbitrary: p rule: collapse_ws.induct)
  case 1
  then show ?case by simp
next
  case (2 c cs)
  show ?case
  proof (cases "isspace c")
    case True
    then have eq: "32 # collapse_ws (dropWhile isspace cs) = p @ g # r" using 2(4) by simp
    have "g \<noteq> 32" using 2(3) isspace_32 by auto
    then obtain p' where p: "p = 32 # p'" and rest: "collapse_ws (dropWhile isspace cs) = p' @ g # r"
      using eq by (cases p) auto
    from 2(1) [OF True 2(3) rest] obtain a b where
        ab: "dropWhile isspace cs = a @ g # b" "collapse_ws a = p'" "collapse_ws b = r" by blast
    have a_start: "dropWhile isspace a = a"
    proof (cases a)
      case Nil
      then show ?thesis by simp
    next
      case (Cons d ds)
      then have "hd (dropWhile isspace cs) = d" using ab(1) by simp
      moreover have "dropWhile isspace cs \<noteq> []" using ab(1) by simp
      ultimately have "\<not> isspace d" using hd_dropWhile [of isspace cs] by auto
      then show ?thesis using Cons by simp
    qed
    have "takeWhile isspace cs @ dropWhile isspace cs = cs" by simp
    then have "takeWhile isspace cs @ (a @ g # b) = cs" by (simp only: ab(1))
    then have "c # cs = (c # takeWhile isspace cs @ a) @ g # b" by simp
    moreover have "collapse_ws (c # takeWhile isspace cs @ a) = p"
    proof -
      have "dropWhile isspace (takeWhile isspace cs @ a) = dropWhile isspace a"
        by (auto simp: dropWhile_append dest: set_takeWhileD)
      then show ?thesis using True p ab(2) a_start by simp
    qed
    ultimately show ?thesis using ab(3) by blast
  next
    case False
    then have eq: "c # collapse_ws cs = p @ g # r" using 2(4) by simp
    show ?thesis
    proof (cases p)
      case Nil
      then have "c = g" "collapse_ws cs = r" using eq by simp_all
      then have "c # cs = [] @ g # cs \<and> collapse_ws [] = p \<and> collapse_ws cs = r"
        using Nil by simp
      then show ?thesis by blast
    next
      case (Cons d p')
      then have d: "d = c" and rest: "collapse_ws cs = p' @ g # r" using eq by simp_all
      from 2(2) [OF False 2(3) rest] obtain a b where
          ab: "cs = a @ g # b" "collapse_ws a = p'" "collapse_ws b = r" by blast
      then have "c # cs = (c # a) @ g # b \<and> collapse_ws (c # a) = p \<and> collapse_ws b = r"
        using False Cons d by simp
      then show ?thesis by blast
    qed
  qed
qed

lemma has_tag_collapse_ws: "has_tag (collapse_ws x) \<Longrightarrow> has_tag x"
proof -
  assume "has_tag (collapse_ws x)"
  then obtain p t q where c: "collapse_ws x = p @ 60 # (t @ 62 # q)" "t \<noteq> []" "62 \<notin> set t"
    unfolding has_tag_def by auto
  from collapse_ws_split [OF not_isspace_60 c(1)] obtain a b where
      ab: "x = a @ 60 # b" "collapse_ws a = p" "collapse_ws b = t @ 62 # q" by blast
  from collapse_ws_split [OF not_isspace_62 ab(3)] obtain a' b' where
      ab': "b = a' @ 62 # b'" "collapse_ws a' = t" "collapse_ws b' = q" by blast
  have "a' \<noteq> []" using ab'(2) c(2) by auto
  moreover have "62 \<notin> set a'"
    using collapse_ws_nonspace [OF not_isspace_62, of a'] ab'(2) c(3) by blast
  moreover have "x = a @ [60] @ a' @ [62] @ b'" using ab(1) ab'(1) by simp
  ultimately show ?thesis unfolding has_tag_def by blast
qed

lemma strip_embedded:
  "s = takeWhile isspace s @ strip s @ rev (takeWhile isspace (rev (dropWhile isspace s)))"
proof -
  have "s = takeWhile isspace s @ dropWhile isspace s" by simp
  also have "\<dots> = takeWhile isspace s
      @ (strip s @ rev (takeWhile isspace (rev (dropWhile isspace s))))"
    by (rule arg_cong [where f = "\<lambda>x. takeWhile isspace s @ x", OF strip_prefix_suffix])
  finally show ?thesis .
qed

lemma has_tag_strip: "has_tag (strip s) \<Longrightarrow> has_tag s"
proof -
  assume h: "has_tag (strip s)"
  have "has_tag (takeWhile isspace s @ strip s @ rev (takeWhile isspace (rev (dropWhile isspace s))))"
    using h by (rule has_tag_embedded)
  then show ?thesis by (simp only: strip_embedded [symmetric])
qed

lemma has_tag_take: "has_tag (take n s) \<Longrightarrow> has_tag s"
  using has_tag_embedded [of "take n s" "[]" "drop n s"] by simp

lemma clean_html_no_tag:
  assumes "38 \<notin> set raw"
  shows "\<not> has_tag (take n (clean_html lib raw))"
proof
  assume h: "has_tag (take n (clean_html lib raw))"
  have "38 \<notin> set (strip_tags raw)" using assms set_strip_tags [of raw] by auto
  then have "clean_html lib raw = strip (collapse_ws (strip_tags raw))"
    by (simp add: clean_html_def unescape_def)
  then have "has_tag (take n (strip (collapse_ws (strip_tags raw))))"
    using h by simp
  then have "has_tag (strip (collapse_ws (strip_tags raw)))" by (rule has_tag_take)
  then have "has_tag (collapse_ws (strip_tags raw))" by (rule has_tag_strip)
  then have "has_tag (strip_tags raw)" by (rule has_tag_collapse_ws)
  then show False using strip_tags_no_tag by blast
qed

subsection \<open>The description of a posting\<close>

lemma job_description:
  "remoteok_job lib d = Inr j \<or> arbeitnow_job lib d = Inr j \<Longrightarrow>
     \<exists>raw. py_or (get d (str ''description'') JNull) (JStr []) = JStr raw \<and>
           description j = take 500 (clean_html lib raw)"
  by (auto simp: remoteok_job_def arbeitnow_job_def clean_html_of_def and_then_def
      split: json.splits sum.splits)

lemma spaced_clean_html: "spaced True (take n (clean_html lib raw))"
proof -
  have "spaced True (clean_html lib raw)"
    unfolding clean_html_def by (rule spaced_strip) (rule spaced_collapse_ws)
  then have "spaced True (take n (clean_html lib raw) @ drop n (clean_html lib raw))"
    by simp
  then show ?thesis by (rule spaced_prefix)
qed

lemma clean_html_last:
  "length (clean_html lib raw) \<le> 500
    \<Longrightarrow> take 500 (clean_html lib raw) = [] \<or> \<not> isspace (last (take 500 (clean_html lib raw)))"
  using strip_last [of "collapse_ws (unescape lib (strip_tags raw))"]
  by (simp add: clean_html_def)

lemma strip_tags_without_lt: "60 \<notin> set s \<Longrightarrow> strip_tags s = s"
  by (induction s) simp_all

lemma collapse_ws_after_letters:
  "\<forall>x \<in> set xs. \<not> isspace x \<Longrightarrow> collapse_ws (xs @ ys) = xs @ collapse_ws ys"
  by (induction xs) simp_all

lemma clean_html_letters:
  assumes "\<forall>x \<in> set xs. \<not> isspace x \<and> x \<noteq> 60 \<and> x \<noteq> 38" and "xs \<noteq> []"
  shows "clean_html lib (xs @ [32, 98]) = xs @ [32, 98]"
proof -
  have 1: "strip_tags (xs @ [32, 98]) = xs @ [32, 98]"
    using assms(1) by (intro strip_tags_without_lt) auto
  have 2: "unescape lib (xs @ [32, 98]) = xs @ [32, 98]"
    using assms(1) by (auto simp: unescape_def)
  have 3: "collapse_ws (xs @ [32, 98]) = xs @ [32, 98]"
    using assms(1) by (simp add: collapse_ws_after_letters isspace_def)
  obtain x xs' where xs: "xs = x # xs'" using assms(2) by (cases xs) auto
  then have nx: "\<not> isspace x" using assms(1) by simp
  have n98: "\<not> isspace 98" by (simp add: isspace_def)
  have 4: "strip (xs @ [32, 98]) = xs @ [32, 98]"
    using nx n98 by (simp add: strip_def xs)
  show ?thesis by (simp only: clean_html_def 1 2 3 4)
qed

lemma react_with_description:
  "remoteok_item plain_lib
     (JObj [(str ''position'', JStr (str ''React dev'')), (str ''description'', JStr raw)])
   = Inr [\<lparr> job_id = str ''rok-'', title = JStr (str ''React dev''), company = JStr (str ''N/A''),
            url = JStr (str ''https://remoteok.com/remote-jobs/''),
            description = take 500 (clean_html plain_lib raw),
            source = str ''RemoteOK'', date = JStr [] \<rparr>]"
proof -
  have t: "remoteok_search_text plain_lib
      [(str ''position'', JStr (str ''React dev'')), (str ''description'', JStr raw)]
     = Inr (str ''react dev  '')"
    by code_simp
  have o: "py_or (JStr raw) (JStr []) = JStr raw"
    by (cases raw) (simp_all add: py_or_def)
  have j: "remoteok_job plain_lib
      [(str ''position'', JStr (str ''React dev'')), (str ''description'', JStr raw)]
     = Inr \<lparr> job_id = str ''rok-'', title = JStr (str ''React dev''), company = JStr (str ''N/A''),
            url = JStr (str ''https://remoteok.com/remote-jobs/''),
            description = take 500 (clean_html plain_lib raw),
            source = str ''RemoteOK'', date = JStr [] \<rparr>"
    by (simp add: remoteok_job_def get_def str_def o clean_html_of_def and_then_def py_str_def)
  show ?thesis
    by (simp add: remoteok_item_def t react_relevant j and_then_def)
qed

text \<open>
  C6, amended. The description of every posting an adapter returns is the first 500
  characters of the cleaned raw description of its item. For every raw string, that text
  has at most 500 characters; every whitespace character in it is a single space, none
  next to another; it does not start with whitespace; and it does not end with whitespace
  when the cleaned text has at most 500 characters (a longer one is cut at 500, where a
  space may stand). Every tag of the raw string (a \<open><\<close>, one or more characters other than
  \<open>>\<close>, a \<open>>\<close>) is replaced before character references are decoded, so no tag is left in
  the text handed to the decoder, and none in the description when the raw string holds
  no \<open>&\<close>; what decoding a reference produces is not stripped again.
\<close>

theorem description_cleaned:
  "(\<forall>j \<in> set (fetch_jobs lib a b). \<exists>d raw.
      (remoteok_job lib d = Inr j \<or> arbeitnow_job lib d = Inr j) \<and>
      py_or (get d (str ''description'') JNull) (JStr []) = JStr raw \<and>
      description j = take 500 (clean_html lib raw)) \<and>
   length (take 500 (clean_html lib raw)) \<le> 500 \<and>
   (\<forall>c \<in> set (take 500 (clean_html lib raw)). isspace c \<longrightarrow> c = 32) \<and>
   \<not> (\<exists>p x y q. take 500 (clean_html lib raw) = p @ [x, y] @ q \<and> isspace x \<and> isspace y) \<and>
   (take 500 (clean_html lib raw) = [] \<or> \<not> isspace (hd (take 500 (clean_html lib raw)))) \<and>
   (length (clean_html lib raw) \<le> 500
      \<longrightarrow> take 500 (clean_html lib raw) = [] \<or>
          \<not> isspace (last (take 500 (clean_html lib raw)))) \<and>
   \<not> (\<exists>p t q. strip_tags raw = p @ [60] @ t @ [62] @ q \<and> t \<noteq> [] \<and> 62 \<notin> set t) \<and>
   (38 \<notin> set raw
      \<longrightarrow> \<not> (\<exists>p t q. take 500 (clean_html lib raw) = p @ [60] @ t @ [62] @ q \<and>
                 t \<noteq> [] \<and> 62 \<notin> set t))"
proof (intro conjI)
  show "\<forall>j \<in> set (fetch_jobs lib a b). \<exists>d raw.
      (remoteok_job lib d = Inr j \<or> arbeitnow_job lib d = Inr j) \<and>
      py_or (get d (str ''description'') JNull) (JStr []) = JStr raw \<and>
      description j = take 500 (clean_html lib raw)"
  proof
    fix j
    assume "j \<in> set (fetch_jobs lib a b)"
    then have "j \<in> set (fetch_remoteok lib a) \<or> j \<in> set (fetch_arbeitnow lib b)"
      by (simp add: fetch_jobs_def)
    then obtain d where d: "remoteok_job lib d = Inr j \<or> arbeitnow_job lib d = Inr j"
      using fetch_remoteok_from_item fetch_arbeitnow_from_item by blast
    then show "\<exists>d raw. (remoteok_job lib d = Inr j \<or> arbeitnow_job lib d = Inr j) \<and>
      py_or (get d (str ''description'') JNull) (JStr []) = JStr raw \<and>
      description j = take 500 (clean_html lib raw)"
      using job_description [OF d] by blast
  qed
  show "length (take 500 (clean_html lib raw)) \<le> 500"
    by simp
  show "\<forall>c \<in> set (take 500 (clean_html lib raw)). isspace c \<longrightarrow> c = 32"
    using spaced_only_spaces [OF spaced_clean_html] by blast
  show "\<not> (\<exists>p x y q. take 500 (clean_html lib raw) = p @ [x, y] @ q \<and> isspace x \<and> isspace y)"
  proof
    assume "\<exists>p x y q. take 500 (clean_html lib raw) = p @ [x, y] @ q \<and> isspace x \<and> isspace y"
    then obtain p x y q where
        e: "take 500 (clean_html lib raw) = p @ [x, y] @ q" and xy: "isspace x \<and> isspace y"
      by blast
    have "spaced True (p @ [x, y] @ q)"
      using spaced_clean_html [of 500 lib raw] by (simp only: e)
    then show False using spaced_no_pair xy by blast
  qed
  show "take 500 (clean_html lib raw) = [] \<or> \<not> isspace (hd (take 500 (clean_html lib raw)))"
    using spaced_clean_html by (rule spaced_hd)
  show "length (clean_html lib raw) \<le> 500
      \<longrightarrow> take 500 (clean_html lib raw) = [] \<or>
          \<not> isspace (last (take 500 (clean_html lib raw)))"
    using clean_html_last by blast
  show "\<not> (\<exists>p t q. strip_tags raw = p @ [60] @ t @ [62] @ q \<and> t \<noteq> [] \<and> 62 \<notin> set t)"
    using strip_tags_no_tag [of raw] unfolding has_tag_def .
  show "38 \<notin> set raw
      \<longrightarrow> \<not> (\<exists>p t q. take 500 (clean_html lib raw) = p @ [60] @ t @ [62] @ q \<and>
                 t \<noteq> [] \<and> 62 \<notin> set t)"
    using clean_html_no_tag [of raw 500 lib] unfolding has_tag_def by (rule impI)
qed

text \<open>
  A raw description of 499 letters, a space and a letter: cleaning leaves it as it is, and
  the cut at 500 leaves a description that ends with the space.
\<close>

theorem truncated_description_ends_with_space:
  "map description (fetch_remoteok plain_lib (Response 200 (Some (JArr [JObj [], long_item]))))
     = [replicate 499 97 @ [32]] \<and>
   isspace (last (replicate 499 97 @ [32]))"
proof -
  have "clean_html plain_lib (replicate 499 97 @ [32, 98]) = replicate 499 97 @ [32, 98]"
    by (rule clean_html_letters) (simp_all add: isspace_def)
  then have "take 500 (clean_html plain_lib (replicate 499 97 @ [32, 98])) = replicate 499 97 @ [32]"
    by simp
  then have "remoteok_item plain_lib long_item
      = Inr [\<lparr> job_id = str ''rok-'', title = JStr (str ''React dev''), company = JStr (str ''N/A''),
               url = JStr (str ''https://remoteok.com/remote-jobs/''),
               description = replicate 499 97 @ [32],
               source = str ''RemoteOK'', date = JStr [] \<rparr>]"
    using react_with_description [of "replicate 499 97 @ [32, 98]"] by (simp add: long_item_def)
  then show ?thesis
    by (simp add: fetch_remoteok_def fetch_remoteok_try_def slice_from_1_def py_iter_def
        and_then_def isspace_def)
qed


theorem description_cleaned_witness:
  "38 \<notin> set html_raw \<and>
   length (clean_html plain_lib html_raw) \<le> 500 \<and>
   take 500 (clean_html plain_lib html_raw) = str ''Hello World'' \<and>
   \<not> isspace (last (take 500 (clean_html plain_lib html_raw))) \<and>
   \<not> (\<exists>p t q. take 500 (clean_html plain_lib html_raw) = p @ [60] @ t @ [62] @ q \<and>
        t \<noteq> [] \<and> 62 \<notin> set t) \<and>
   html_job \<in> set (fetch_jobs plain_lib (Response 200 (Some (JArr [JObj [], html_item])))
      TransportFailure) \<and>
   (\<exists>d raw. (remoteok_job plain_lib d = Inr html_job \<or> arbeitnow_job plain_lib d = Inr html_job) \<and>
      py_or (get d (str ''description'') JNull) (JStr []) = JStr raw \<and>
      description html_job = take 500 (clean_html plain_lib raw))"
proof -
  let ?a = "Response 200 (Some (JArr [JObj [], html_item]))"
  note c = description_cleaned [where lib = plain_lib and raw = html_raw and a = ?a
      and b = TransportFailure]
  have v: "clean_html plain_lib html_raw = str ''Hello World''"
    by (simp add: html_raw_def str_def clean_html_def unescape_def strip_def isspace_def)
  have h1: "38 \<notin> set html_raw"
    by (simp add: html_raw_def str_def)
  have h2: "length (clean_html plain_lib html_raw) \<le> 500"
    unfolding v by (simp add: str_def)
  have t: "take 500 (clean_html plain_lib html_raw) = str ''Hello World''"
    unfolding v by (simp add: str_def)
  have ne: "take 500 (clean_html plain_lib html_raw) \<noteq> []"
    unfolding t by (simp add: str_def)
  have c1: "\<not> isspace (last (take 500 (clean_html plain_lib html_raw)))"
    using conjunct1 [OF conjunct2 [OF conjunct2 [OF conjunct2 [OF conjunct2 [OF conjunct2 [OF c]]]]]]
      h2 ne by simp
  have c2: "\<not> (\<exists>p t q. take 500 (clean_html plain_lib html_raw) = p @ [60] @ t @ [62] @ q \<and>
      t \<noteq> [] \<and> 62 \<notin> set t)"
    using conjunct2 [OF conjunct2 [OF conjunct2 [OF conjunct2 [OF conjunct2 [OF conjunct2
      [OF conjunct2 [OF c]]]]]]] h1 by simp
  have i: "remoteok_item plain_lib html_item = Inr [html_job]"
    using react_with_description [of html_raw] t by (simp add: html_item_def html_job_def)
  have j: "html_job \<in> set (fetch_jobs plain_lib ?a TransportFailure)"
    by (simp add: fetch_jobs_def fetch_remoteok_def fetch_remoteok_try_def slice_from_1_def
        py_iter_def and_then_def i fetch_arbeitnow_def fetch_arbeitnow_try_def)
  have c3: "\<exists>d raw. (remoteok_job plain_lib d = Inr html_job \<or> arbeitnow_job plain_lib d = Inr html_job) \<and>
      py_or (get d (str ''description'') JNull) (JStr []) = JStr raw \<and>
      description html_job = take 500 (clean_html plain_lib raw)"
    using conjunct1 [OF c] j by (rule bspec)
  show ?thesis
    using h1 h2 t c1 c2 j c3 by (intro conjI)
qed

end
